theory Spec2Isabelle
  imports Main "HOL-Library.Word"
begin

unbundle bit_operations_syntax

section \<open>Post-vertex-shader stream-out capture (d3d12\_postvs.cpp)\<close>

text \<open>
  A shallow embedding of \<^verbatim>\<open>renderdoc/driver/d3d12/d3d12_postvs.cpp\<close>.
  Device and GPU calls become entries of a call log kept in the replay state; what the
  device answers (an HRESULT) and what the GPU wrote (counters, vertex data) are inputs
  of the functions.
\<close>

subsection \<open>HRESULT\<close>

type_synonym HRESULT = "32 word"

definition S_OK :: HRESULT where
  "S_OK = 0"

definition E_OUTOFMEMORY :: HRESULT where
  "E_OUTOFMEMORY = 0x8007000E"

text \<open>The macro \<^verbatim>\<open>FAILED(hr)\<close>: the HRESULT read as a signed value is negative.\<close>

definition FAILED :: "HRESULT \<Rightarrow> bool" where
  "FAILED hr = (sint hr < 0)"

subsection \<open>Primitive topologies\<close>

text \<open>
  The enumeration \<^verbatim>\<open>D3D_PRIMITIVE_TOPOLOGY\<close>; the patch lists carry their number of
  control points.
\<close>

datatype D3D_PRIMITIVE_TOPOLOGY =
    TOPOLOGY_UNDEFINED
  | TOPOLOGY_POINTLIST
  | TOPOLOGY_LINELIST
  | TOPOLOGY_LINESTRIP
  | TOPOLOGY_TRIANGLELIST
  | TOPOLOGY_TRIANGLESTRIP
  | TOPOLOGY_LINELIST_ADJ
  | TOPOLOGY_LINESTRIP_ADJ
  | TOPOLOGY_TRIANGLELIST_ADJ
  | TOPOLOGY_TRIANGLESTRIP_ADJ
  | TOPOLOGY_CONTROL_POINT_PATCHLIST nat

text \<open>
  Lines 1389--1399: the topology stored in \<^verbatim>\<open>ret.gsout.topo\<close> for the output topology
  \<^verbatim>\<open>topo\<close> of the last shader.
\<close>

definition gsoutTopo :: "D3D_PRIMITIVE_TOPOLOGY \<Rightarrow> D3D_PRIMITIVE_TOPOLOGY" where
  "gsoutTopo t =
     (if t = TOPOLOGY_TRIANGLESTRIP then TOPOLOGY_TRIANGLELIST
      else if t = TOPOLOGY_LINESTRIP then TOPOLOGY_LINELIST
      else if t = TOPOLOGY_TRIANGLESTRIP_ADJ then TOPOLOGY_TRIANGLELIST_ADJ
      else if t = TOPOLOGY_LINESTRIP_ADJ then TOPOLOGY_LINELIST_ADJ
      else t)"

definition isStrip :: "D3D_PRIMITIVE_TOPOLOGY \<Rightarrow> bool" where
  "isStrip t =
     (t = TOPOLOGY_TRIANGLESTRIP \<or> t = TOPOLOGY_LINESTRIP \<or>
      t = TOPOLOGY_TRIANGLESTRIP_ADJ \<or> t = TOPOLOGY_LINESTRIP_ADJ)"

subsection \<open>The call log\<close>

text \<open>
  The calls the routines make on the device, the queue and the staging buffer. The
  committed resources carry the width of the buffer asked for. What is recorded into a
  command list (state, draws, queries, barriers, copies) reaches the GPU with
  ExecuteCommandLists and is not logged on its own.
\<close>

datatype call =
    CreateCommittedResource "64 word"
  | CreateQueryHeap
  | CreateUnorderedAccessView
  | CreateRootSignature
  | CreatePipeState
  | GetBufferData
  | FillBuffer
  | ExecuteCommandLists
  | GPUSync
  | Map
  | Unmap

subsection \<open>The scratch pool: CreateSOBuffers\<close>

text \<open>
  The members of \<^verbatim>\<open>D3D12Replay\<close> the pool consists of. A buffer member is \<open>True\<close>
  when the pointer is not NULL. \<open>stagingMapped\<close> counts the maps of the current
  staging buffer that have not been undone; \<open>calls\<close> is the call log, oldest first.
\<close>

record pool =
  m_SOBufferSize :: "64 word"
  m_SOBuffer :: bool
  m_SOStagingBuffer :: bool
  m_SOPatchedIndexBuffer :: bool
  m_SOQueryHeap :: bool
  stagingMapped :: nat
  calls :: "call list"

text \<open>What the device answers to the four creations of one run of CreateSOBuffers.\<close>

record so_hrs =
  hrSOBuffer :: HRESULT
  hrStagingBuffer :: HRESULT
  hrPatchedIndexBuffer :: HRESULT
  hrQueryHeap :: HRESULT

definition issue :: "call \<Rightarrow> 'a pool_scheme \<Rightarrow> 'a pool_scheme" where
  "issue c p = p\<lparr>calls := calls p @ [c]\<rparr>"

text \<open>
  Lines 47--161. The four SAFE\_RELEASE calls drop the old objects, and with the old
  staging buffer its mappings. \<^verbatim>\<open>sizeof(Vec4f)\<close> is 16.
\<close>

definition CreateSOBuffers :: "so_hrs \<Rightarrow> 'a pool_scheme \<Rightarrow> bool \<times> 'a pool_scheme" where
  "CreateSOBuffers hrs p0 =
     (let p1 = p0\<lparr>m_SOBuffer := False, m_SOStagingBuffer := False,
                   m_SOPatchedIndexBuffer := False, m_SOQueryHeap := False,
                   stagingMapped := 0\<rparr>
      in if m_SOBufferSize p1 \<ge> 0xFFFF0000 then (False, p1\<lparr>m_SOBufferSize := 0\<rparr>)
      else
        let p2 = issue (CreateCommittedResource (m_SOBufferSize p1 + 64)) p1
        in if FAILED (hrSOBuffer hrs) then (False, p2\<lparr>m_SOBufferSize := 0\<rparr>)
        else
          let p3 = issue (CreateCommittedResource (m_SOBufferSize p1 + 64))
                     (p2\<lparr>m_SOBuffer := True\<rparr>)
          in if FAILED (hrStagingBuffer hrs) then (False, p3\<lparr>m_SOBufferSize := 0\<rparr>)
          else
            let p4 = issue (CreateCommittedResource (m_SOBufferSize p1 div 16))
                       (p3\<lparr>m_SOStagingBuffer := True\<rparr>)
            in if FAILED (hrPatchedIndexBuffer hrs) then (False, p4\<lparr>m_SOBufferSize := 0\<rparr>)
            else
              let p5 = issue CreateQueryHeap (p4\<lparr>m_SOPatchedIndexBuffer := True\<rparr>)
              in if FAILED (hrQueryHeap hrs) then (False, p5\<lparr>m_SOBufferSize := 0\<rparr>)
              else
                (True, issue CreateUnorderedAccessView
                         (issue CreateUnorderedAccessView (p5\<lparr>m_SOQueryHeap := True\<rparr>))))"

subsection \<open>The declaration builder\<close>

text \<open>
  The output signature of a shader as its reflection gives it. Of the enumeration
  \<^verbatim>\<open>ShaderBuiltin\<close> only \<^verbatim>\<open>Position\<close> is told apart by this file.
\<close>

datatype ShaderBuiltin = Undefined | Position | OtherBuiltin nat

record SigParameter =
  semanticName :: string
  semanticIndex :: "32 word"
  compCount :: "32 word"
  systemValue :: ShaderBuiltin
  stream :: "32 word"

record D3D12_SO_DECLARATION_ENTRY =
  Stream :: "32 word"
  SemanticName :: string
  SemanticIndex :: "32 word"
  StartComponent :: "8 word"
  ComponentCount :: "8 word"
  OutputSlot :: "8 word"

text \<open>The locals the two loops over the signature build up (lines 312--316).\<close>

record sobuild =
  sodecls :: "D3D12_SO_DECLARATION_ENTRY list"
  stride :: "32 word"
  posidx :: int
  numPosComponents :: int

definition sobuild0 :: sobuild where
  "sobuild0 = \<lparr>sodecls = [], stride = 0, posidx = -1, numPosComponents = 0\<rparr>"

text \<open>
  Lines 322--336 and 843--861: the entry made for one parameter. The component count is
  the low byte of the signature's, and 4 for the position.
\<close>

definition declOf :: "SigParameter \<Rightarrow> D3D12_SO_DECLARATION_ENTRY" where
  "declOf sign =
     \<lparr>Stream = 0, SemanticName = semanticName sign, SemanticIndex = semanticIndex sign,
      StartComponent = 0,
      ComponentCount =
        (if systemValue sign = Position then 4 else ucast (compCount sign AND 0xff)),
      OutputSlot = 0\<rparr>"

text \<open>One turn of the loop: lines 320--340. \<^verbatim>\<open>sizeof(float)\<close> is 4.\<close>

definition addDecl :: "sobuild \<Rightarrow> SigParameter \<Rightarrow> sobuild" where
  "addDecl b sign =
     (let decl = declOf sign;
          b1 = (if systemValue sign = Position
                then b\<lparr>posidx := int (length (sodecls b)), numPosComponents := 4\<rparr>
                else b)
      in b1\<lparr>stride := stride b1 + ucast (ComponentCount decl) * 4,
             sodecls := sodecls b1 @ [decl]\<rparr>)"

text \<open>
  Lines 350--355 and 869--874: \<^verbatim>\<open>erase(posidx)\<close> and \<^verbatim>\<open>insert(0, pos)\<close> when the
  position is not first already.
\<close>

definition shiftPosition :: "sobuild \<Rightarrow> sobuild" where
  "shiftPosition b =
     (if posidx b > 0
      then let pos = sodecls b ! nat (posidx b);
               erased = take (nat (posidx b)) (sodecls b) @
                        drop (Suc (nat (posidx b))) (sodecls b)
           in b\<lparr>sodecls := pos # erased\<rparr>
      else b)"

text \<open>The vertex pass, lines 320--355, entered with a signature that is not empty.\<close>

definition buildVSDecls :: "SigParameter list \<Rightarrow> sobuild" where
  "buildVSDecls sig =
     (let b = foldl addDecl sobuild0 sig;
          b1 = (if stride b = 0 then b\<lparr>stride := 4\<rparr> else b)
      in shiftPosition b1)"

text \<open>
  The geometry/tessellation pass, lines 836--874: parameters of a stream other than 0 are
  skipped, and there is no fallback for a stride of 0.
\<close>

definition addDeclStream0 :: "sobuild \<Rightarrow> SigParameter \<Rightarrow> sobuild" where
  "addDeclStream0 b sign = (if stream sign \<noteq> 0 then b else addDecl b sign)"

definition buildGSDecls :: "SigParameter list \<Rightarrow> sobuild" where
  "buildGSDecls sig = shiftPosition (foldl addDeclStream0 sobuild0 sig)"

text \<open>
  \<open>lastPosition sig p\<close>: the parameter at index \<open>p\<close> is marked as the position, and no
  later one is. With one position in the signature this is its index.
\<close>

definition lastPosition :: "SigParameter list \<Rightarrow> nat \<Rightarrow> bool" where
  "lastPosition sig p =
     (p < length sig \<and> systemValue (sig ! p) = Position \<and>
      (\<forall>q. p < q \<and> q < length sig \<longrightarrow> systemValue (sig ! q) \<noteq> Position))"

subsection \<open>The index rebaser\<close>

text \<open>
  The bytes fetched from the index buffer, as the code reads them through
  \<^verbatim>\<open>idx16\<close> and \<^verbatim>\<open>idx32\<close>: the array of the whole elements of the index width.
  \<open>Idx16\<close> is a buffer with \<^verbatim>\<open>bytewidth == 2\<close>; any other width is read as 32-bit.
\<close>

datatype idxbuf = Idx16 "16 word list" | Idx32 "32 word list"

fun idxCount :: "idxbuf \<Rightarrow> nat" where
  "idxCount (Idx16 xs) = length xs"
| "idxCount (Idx32 xs) = length xs"

fun idxBytes :: "idxbuf \<Rightarrow> nat" where
  "idxBytes (Idx16 xs) = 2 * length xs"
| "idxBytes (Idx32 xs) = 4 * length xs"

text \<open>Lines 481 and 583: \<^verbatim>\<open>bytewidth == 2 ? uint32_t(idx16[i]) : idx32[i]\<close>.\<close>

fun readIdx :: "idxbuf \<Rightarrow> nat \<Rightarrow> 32 word" where
  "readIdx (Idx16 idx16) i = ucast (idx16 ! i)"
| "readIdx (Idx32 idx32) i = idx32 ! i"

text \<open>
  Lines 589--592: the remapped value, a \<^verbatim>\<open>size_t\<close>, is cut to the index width on
  the store.
\<close>

fun writeIdx :: "idxbuf \<Rightarrow> nat \<Rightarrow> nat \<Rightarrow> idxbuf" where
  "writeIdx (Idx16 idx16) i v = Idx16 (idx16[i := of_nat v])"
| "writeIdx (Idx32 idx32) i v = Idx32 (idx32[i := of_nat v])"

text \<open>
  \<^verbatim>\<open>std::lower_bound\<close>: the position of the first element that is not less than
  \<open>v\<close>.
\<close>

definition lower_bound :: "32 word list \<Rightarrow> 32 word \<Rightarrow> nat" where
  "lower_bound xs v = length (takeWhile (\<lambda>x. x < v) xs)"

text \<open>Lines 483--488: one turn of the loop that collects the indices.\<close>

definition insertUnique :: "32 word list \<Rightarrow> 32 word \<Rightarrow> 32 word list" where
  "insertUnique indices i32 =
     (let it = lower_bound indices i32
      in if it \<noteq> length indices \<and> indices ! it = i32 then indices
         else take it indices @ i32 # drop it indices)"

definition uniqueIndices :: "idxbuf \<Rightarrow> 32 word \<Rightarrow> 32 word list" where
  "uniqueIndices ib numRead =
     foldl (\<lambda>indices i. insertUnique indices (readIdx ib i)) [] [0..<unat numRead]"

text \<open>Lines 493--494: the index 0 that a read out of bounds brings in.\<close>

definition implicitZero :: "32 word list \<Rightarrow> 32 word \<Rightarrow> 32 word \<Rightarrow> 32 word list" where
  "implicitZero indices numRead numAsked =
     (if numRead < numAsked \<and> (indices = [] \<or> indices ! 0 \<noteq> 0)
      then 0 # indices else indices)"

text \<open>
  Lines 509--514: the \<^verbatim>\<open>std::map\<close> from an index to its position. Looking a key up
  with \<^verbatim>\<open>operator[]\<close> gives 0 for a key that is not there.
\<close>

definition remapStep ::
  "32 word list \<Rightarrow> (32 word \<rightharpoonup> nat) \<Rightarrow> nat \<Rightarrow> (32 word \<rightharpoonup> nat)" where
  "remapStep indices indexRemap i = indexRemap(indices ! i \<mapsto> i)"

definition buildRemap :: "32 word list \<Rightarrow> (32 word \<rightharpoonup> nat)" where
  "buildRemap indices = foldl (remapStep indices) Map.empty [0..<length indices]"

definition remapAt :: "(32 word \<rightharpoonup> nat) \<Rightarrow> 32 word \<Rightarrow> nat" where
  "remapAt indexRemap k = (case indexRemap k of None \<Rightarrow> 0 | Some v \<Rightarrow> v)"

text \<open>Lines 573--577: the restart value the pipeline is set up with; 0 when it has none.\<close>

datatype D3D12_INDEX_BUFFER_STRIP_CUT_VALUE =
  STRIP_CUT_VALUE_DISABLED | STRIP_CUT_VALUE_0xFFFF | STRIP_CUT_VALUE_0xFFFFFFFF

definition stripCutValueOf :: "D3D12_INDEX_BUFFER_STRIP_CUT_VALUE \<Rightarrow> 32 word" where
  "stripCutValueOf v =
     (if v = STRIP_CUT_VALUE_0xFFFF then 0xffff
      else if v = STRIP_CUT_VALUE_0xFFFFFFFF then 0xffffffff
      else 0)"

text \<open>Lines 581--593: one turn of the loop that rewrites the fetched indices in place.\<close>

definition rebaseStep :: "32 word \<Rightarrow> (32 word \<rightharpoonup> nat) \<Rightarrow> idxbuf \<Rightarrow> nat \<Rightarrow> idxbuf" where
  "rebaseStep stripCutValue indexRemap ib i =
     (let i32 = readIdx ib i
      in if stripCutValue \<noteq> 0 \<and> i32 = stripCutValue then ib
         else writeIdx ib i (remapAt indexRemap i32))"

record rebased =
  indices :: "32 word list"
  indexRemap :: "32 word \<rightharpoonup> nat"
  idxdata :: idxbuf

text \<open>
  Lines 475--514 and 573--593 together. The number of indices read is the smaller of
  what the buffer holds (cut to 32 bits) and what the draw asks for.
\<close>

definition rebaseIndices ::
  "idxbuf \<Rightarrow> 32 word \<Rightarrow> D3D12_INDEX_BUFFER_STRIP_CUT_VALUE \<Rightarrow> rebased" where
  "rebaseIndices ib numAsked IBStripCutValue =
     (let numRead = min (of_nat (idxCount ib)) numAsked;
          ind = implicitZero (uniqueIndices ib numRead) numRead numAsked;
          remap = buildRemap ind
      in \<lparr>indices = ind, indexRemap = remap,
          idxdata = foldl (rebaseStep (stripCutValueOf IBStripCutValue) remap) ib
                      [0..<unat numRead]\<rparr>)"

subsection \<open>The counters of a draw with several instances\<close>

text \<open>
  \<^verbatim>\<open>D3D12PostVSData::InstData\<close>; the fields are prefixed, \<^verbatim>\<open>StageData\<close> has a
  \<^verbatim>\<open>numVerts\<close> of its own.
\<close>

record InstData =
  instNumVerts :: "32 word"
  instBufOffset :: "64 word"

text \<open>
  Lines 1246--1256. \<open>counters\<close> is the mapped staging buffer read as an array of
  \<^verbatim>\<open>uint64_t\<close>; the state of the loop is the list built so far and
  \<^verbatim>\<open>prevByteCount\<close>.
\<close>

definition instStep ::
  "32 word \<Rightarrow> (nat \<Rightarrow> 64 word) \<Rightarrow> InstData list \<times> 64 word \<Rightarrow> nat
     \<Rightarrow> InstData list \<times> 64 word" where
  "instStep vstride counters st inst =
     (let byteCount = counters inst;
          prevByteCount = snd st;
          d = \<lparr>instNumVerts = ucast ((byteCount - prevByteCount) div ucast vstride),
               instBufOffset = prevByteCount\<rparr>
      in (fst st @ [d], byteCount))"

text \<open>
  Lines 1240--1263: the per-instance data and \<^verbatim>\<open>numBytesWritten\<close>. With several
  instances and a stride of 0 the division traps: \<open>None\<close>.
\<close>

definition decodeCounters ::
  "32 word \<Rightarrow> 32 word \<Rightarrow> (nat \<Rightarrow> 64 word) \<Rightarrow> (InstData list \<times> 64 word) option" where
  "decodeCounters vstride nInstances counters =
     (if nInstances > 1
      then (if vstride = 0 then None
            else Some (foldl (instStep vstride counters) ([], 0) [0..<unat nInstances]))
      else Some ([], counters 0))"

text \<open>The counter before slot \<open>i\<close>: 0 before the first.\<close>

definition prevCounter :: "(nat \<Rightarrow> 64 word) \<Rightarrow> nat \<Rightarrow> 64 word" where
  "prevCounter counters i = (if i = 0 then 0 else counters (i - 1))"

subsection \<open>Near and far plane\<close>

text \<open>
  A \<^verbatim>\<open>float\<close> is its IEEE 754 binary32 bit pattern, as it lies in the mapped buffer.
  Comparison, negation and the absolute value are exact operations on the pattern and are
  defined here. Subtraction, multiplication and division round; they are taken as
  parameters, so that what is proved holds for the arithmetic of any target.
\<close>

type_synonym float = "32 word"

record farith =
  fsub :: "float \<Rightarrow> float \<Rightarrow> float"
  fmul :: "float \<Rightarrow> float \<Rightarrow> float"
  fdiv :: "float \<Rightarrow> float \<Rightarrow> float"

definition isNaN :: "float \<Rightarrow> bool" where
  "isNaN x = (x AND 0x7F800000 = 0x7F800000 \<and> x AND 0x007FFFFF \<noteq> 0)"

text \<open>
  The place of a float that is not a NaN in the order of the reals: the magnitude bits,
  negated when the sign bit is set. Both zeros have the place 0.
\<close>

definition fkey :: "float \<Rightarrow> int" where
  "fkey x = (if x AND 0x80000000 \<noteq> 0 then - uint (x AND 0x7FFFFFFF) else uint x)"

definition fgt :: "float \<Rightarrow> float \<Rightarrow> bool" where
  "fgt a b = (\<not> isNaN a \<and> \<not> isNaN b \<and> fkey a > fkey b)"

definition fle :: "float \<Rightarrow> float \<Rightarrow> bool" where
  "fle a b = (\<not> isNaN a \<and> \<not> isNaN b \<and> fkey a \<le> fkey b)"

definition feq :: "float \<Rightarrow> float \<Rightarrow> bool" where
  "feq a b = (\<not> isNaN a \<and> \<not> isNaN b \<and> fkey a = fkey b)"

definition fabs :: "float \<Rightarrow> float" where
  "fabs x = x AND 0x7FFFFFFF"

definition fneg :: "float \<Rightarrow> float" where
  "fneg x = x XOR 0x80000000"

text \<open>The constants of lines 729--787, and for comparison the pattern of +infinity.\<close>

definition f_0 :: float where "f_0 = 0"
definition f_1 :: float where "f_1 = 0x3F800000"
definition f_0_01 :: float where "f_0_01 = 0x3C23D70A"
definition f_0_000001 :: float where "f_0_000001 = 0x358637BD"
definition f_0_1 :: float where "f_0_1 = 0x3DCCCCCD"
definition f_100 :: float where "f_100 = 0x42C80000"
definition FLT_MAX :: float where "FLT_MAX = 0x7F7FFFFF"

text \<open>
  \<open>floats\<close> is the mapped buffer behind the counters, read as an array of floats. The
  vertex \<open>i\<close> starts \<open>i * stride\<close> bytes in; \<^verbatim>\<open>z\<close> and \<^verbatim>\<open>w\<close> are the third and the
  fourth float of a \<^verbatim>\<open>Vec4f\<close>.
\<close>

definition vecZ :: "(nat \<Rightarrow> float) \<Rightarrow> 32 word \<Rightarrow> nat \<Rightarrow> float" where
  "vecZ floats vstride i = floats (i * unat vstride div 4 + 2)"

definition vecW :: "(nat \<Rightarrow> float) \<Rightarrow> 32 word \<Rightarrow> nat \<Rightarrow> float" where
  "vecW floats vstride i = floats (i * unat vstride div 4 + 3)"

text \<open>Line 758: the vertex \<open>i\<close> is far enough from the first one in both z and w.\<close>

definition pairDiffers :: "farith \<Rightarrow> (nat \<Rightarrow> float) \<Rightarrow> 32 word \<Rightarrow> nat \<Rightarrow> bool" where
  "pairDiffers ar floats vstride i =
     (fgt (fabs (fsub ar (vecW floats vstride i) (vecW floats vstride 0))) f_0_01 \<and>
      fgt (fabs (fsub ar (vecZ floats vstride i) (vecZ floats vstride 0))) f_0_01)"

text \<open>Lines 760--764, with A = (w, z) of the first vertex and B = (w, z) of vertex \<open>i\<close>.\<close>

definition solveM :: "farith \<Rightarrow> (nat \<Rightarrow> float) \<Rightarrow> 32 word \<Rightarrow> nat \<Rightarrow> float" where
  "solveM ar floats vstride i =
     fdiv ar (fsub ar (vecZ floats vstride i) (vecZ floats vstride 0))
             (fsub ar (vecW floats vstride i) (vecW floats vstride 0))"

definition solveC :: "farith \<Rightarrow> (nat \<Rightarrow> float) \<Rightarrow> 32 word \<Rightarrow> nat \<Rightarrow> float" where
  "solveC ar floats vstride i =
     fsub ar (vecZ floats vstride i)
             (fmul ar (vecW floats vstride i) (solveM ar floats vstride i))"

text \<open>Lines 772--773: \<^verbatim>\<open>-c / m\<close> and \<^verbatim>\<open>c / (1 - m)\<close>.\<close>

definition solveNear :: "farith \<Rightarrow> (nat \<Rightarrow> float) \<Rightarrow> 32 word \<Rightarrow> nat \<Rightarrow> float" where
  "solveNear ar floats vstride i =
     fdiv ar (fneg (solveC ar floats vstride i)) (solveM ar floats vstride i)"

definition solveFar :: "farith \<Rightarrow> (nat \<Rightarrow> float) \<Rightarrow> 32 word \<Rightarrow> nat \<Rightarrow> float" where
  "solveFar ar floats vstride i =
     fdiv ar (solveC ar floats vstride i) (fsub ar f_1 (solveM ar floats vstride i))"

text \<open>Lines 766--770: the two tests that send the loop on to the next vertex.\<close>

definition pairRejected :: "farith \<Rightarrow> (nat \<Rightarrow> float) \<Rightarrow> 32 word \<Rightarrow> nat \<Rightarrow> bool" where
  "pairRejected ar floats vstride i =
     (feq (solveM ar floats vstride i) f_1 \<or> feq (solveC ar floats vstride i) f_0 \<or>
      fle (solveNear ar floats vstride i) f_0_000001)"

text \<open>
  The loop of lines 736--779 over the vertices still to look at: the planes of the first
  vertex that differs and is not rejected, \<open>None\<close> when there is none (\<^verbatim>\<open>found\<close> stays
  false).
\<close>

fun scanNearFar ::
  "farith \<Rightarrow> (nat \<Rightarrow> float) \<Rightarrow> 32 word \<Rightarrow> nat list \<Rightarrow> (float \<times> float) option" where
  "scanNearFar ar floats vstride [] = None"
| "scanNearFar ar floats vstride (i # rest) =
     (if pairDiffers ar floats vstride i
      then (if pairRejected ar floats vstride i then scanNearFar ar floats vstride rest
            else Some (solveNear ar floats vstride i, solveFar ar floats vstride i))
      else scanNearFar ar floats vstride rest)"

text \<open>
  Lines 729--788 (and 1313--1372): \<^verbatim>\<open>nearp\<close> and \<^verbatim>\<open>farp\<close>. The loop runs over the
  vertices 1 to \<open>numPrims - 1\<close> when the position has 4 components, and not at all
  otherwise.
\<close>

definition deriveNearFar ::
  "farith \<Rightarrow> int \<Rightarrow> 64 word \<Rightarrow> (nat \<Rightarrow> float) \<Rightarrow> 32 word \<Rightarrow> float \<times> float" where
  "deriveNearFar ar nPosComponents numPrims floats vstride =
     (case (if nPosComponents = 4 then scanNearFar ar floats vstride [1..<unat numPrims]
            else None) of
        Some nf \<Rightarrow> nf
      | None \<Rightarrow>
          if fgt (vecZ floats vstride 0) f_0 \<and>
             fgt (vecW floats vstride 0) (vecZ floats vstride 0)
          then (vecZ floats vstride 0, FLT_MAX)
          else (f_0_1, f_100))"

subsection \<open>Results and the cache\<close>

text \<open>
  A pointer to a resource is \<open>None\<close> when NULL and otherwise holds the identifier of the
  resource; a \<^verbatim>\<open>ResourceId\<close> is \<open>None\<close> when it is the null identifier.
\<close>

type_synonym resource = "nat option"

datatype DXGI_FORMAT = DXGI_FORMAT_UNKNOWN | DXGI_FORMAT_R16_UINT | DXGI_FORMAT_R32_UINT

record StageData =
  buf :: resource
  topo :: D3D_PRIMITIVE_TOPOLOGY
  vertStride :: "32 word"
  numVerts :: "32 word"
  instStride :: "32 word"
  instData :: "InstData list"
  useIndices :: bool
  idxBuf :: resource
  idxFmt :: DXGI_FORMAT
  hasPosOut :: bool
  nearPlane :: float
  farPlane :: float
  status :: string

record D3D12PostVSData =
  vsin :: StageData
  vsout :: StageData
  gsout :: StageData

text \<open>
  The declaration of \<^verbatim>\<open>D3D12PostVSData\<close> is not among the sources, so what its
  constructor and \<^verbatim>\<open>RDCEraseEl\<close> leave in the members are parameters:
  \<open>newPostVSData\<close> of the capture inputs is a new entry (\<^verbatim>\<open>m_PostVSData[eventId]\<close>,
  \<^verbatim>\<open>D3D12PostVSData()\<close>), \<open>erasedPostVSData\<close> of the helpers an erased one.
\<close>

datatype MeshDataStage = StageUnknown | VSIn | VSOut | GSOut



text \<open>The replay: the scratch pool, the cache of results and the alias table.\<close>

record replay = pool +
  m_PostVSData :: "32 word \<rightharpoonup> D3D12PostVSData"
  m_PostVSAlias :: "32 word \<rightharpoonup> 32 word"

text \<open>Lines 178--180 and 1467--1469: one step through the alias table.\<close>

definition resolveAlias :: "replay \<Rightarrow> 32 word \<Rightarrow> 32 word" where
  "resolveAlias s eventId =
     (case m_PostVSAlias s eventId of Some primary \<Rightarrow> primary | None \<Rightarrow> eventId)"


subsection \<open>What one capture is given\<close>

record ActionDescription =
  numIndices :: "32 word"
  numInstances :: "32 word"
  Indexed :: bool
  Instanced :: bool

record shader =
  OutputSig :: "SigParameter list"
  OutputTopology :: D3D_PRIMITIVE_TOPOLOGY

text \<open>
  One turn of the statistics loop of a draw with one instance: what mapping the staging
  buffer returns, what the query counted, and what the device answers if the buffers are
  created anew.
\<close>

record probe =
  probeMapHr :: HRESULT
  probePrimitivesStorageNeeded :: "64 word"
  probeCreateHrs :: so_hrs

text \<open>
  Everything InitPostVSBuffers reads from outside: the render state and the pipeline at
  the draw, what the device answers to each call that can fail, what the GPU wrote, and
  the helpers of other files (\<^verbatim>\<open>CalcMeshOutputSize\<close>, \<^verbatim>\<open>AlignUp\<close>, \<^verbatim>\<open>ToStr\<close>,
  the \<^verbatim>\<open>%llu\<close> of \<^verbatim>\<open>StringFormat::Fmt\<close>) and the float arithmetic.
  \<open>ibufferBound\<close> is the test of line 465; \<open>ibufferData\<close> is what GetBufferData
  fetches. The resources are what the three CreateCommittedResource calls for the result
  buffers leave in their pointers. \<open>newPostVSData\<close> is a default-constructed
  \<^verbatim>\<open>D3D12PostVSData\<close>.
\<close>

record env =
  rs_pipe :: "nat option"
  IsGraphics :: bool
  VS_BytecodeLength :: nat
  rs_topo :: D3D_PRIMITIVE_TOPOLOGY
  action :: ActionDescription
  VS :: shader
  GS :: "shader option"
  DS :: "shader option"
  rootsigAllowsStreamOutput :: bool
  psoIBStripCutValue :: D3D12_INDEX_BUFFER_STRIP_CUT_VALUE
  ibufferBound :: bool
  ibufferData :: idxbuf
  hrCreateRootSignature :: HRESULT
  hrCreatePipeStateVS :: HRESULT
  hrCreatePipeStateGS :: HRESULT
  hrsCreateSOBuffersVS :: so_hrs
  hrsCreateSOBuffersGS :: so_hrs
  hrMapVS :: HRESULT
  hrMapStatistics :: HRESULT
  hrMapGS :: HRESULT
  idxBufResource :: resource
  vsoutBufferResource :: resource
  gsoutBufferResource :: resource
  vsBytesWritten :: "64 word"
  vsFloats :: "nat \<Rightarrow> float"
  statistics :: "64 word"
  probes :: "probe list"
  gsCounters :: "nat \<Rightarrow> 64 word"
  gsFloats :: "nat \<Rightarrow> float"
  CalcMeshOutputSize :: "64 word \<Rightarrow> 64 word \<Rightarrow> 64 word"
  AlignUp :: "64 word \<Rightarrow> 64 word \<Rightarrow> 64 word"
  ToStr :: "HRESULT \<Rightarrow> string"
  FmtU64 :: "64 word \<Rightarrow> string"
  arith :: farith
  newPostVSData :: D3D12PostVSData

text \<open>
  The ways the routine does not come back: an integer division by zero, a loop that
  never ends, and (of the model only) a statistics loop that outlasts the answers given
  in \<open>probes\<close>.
\<close>

datatype fault = DivisionByZero | LoopForever | ProbesExhausted

text \<open>A step either returns from the routine or hands on to the next step.\<close>

datatype 'a flow = Return "D3D12PostVSData \<times> replay" | Next 'a

definition setVsStatus :: "string \<Rightarrow> D3D12PostVSData \<Rightarrow> D3D12PostVSData" where
  "setVsStatus msg ret = ret\<lparr>vsout := (vsout ret)\<lparr>status := msg\<rparr>\<rparr>"

definition setGsStatus :: "string \<Rightarrow> D3D12PostVSData \<Rightarrow> D3D12PostVSData" where
  "setGsStatus msg ret = ret\<lparr>gsout := (gsout ret)\<lparr>status := msg\<rparr>\<rparr>"

text \<open>Lines 197, 206, 215, 230, 236: \<^verbatim>\<open>ret.gsout.status = ret.vsout.status = msg\<close>.\<close>

definition setBothStatus :: "string \<Rightarrow> D3D12PostVSData \<Rightarrow> D3D12PostVSData" where
  "setBothStatus msg ret = setGsStatus msg (setVsStatus msg ret)"

text \<open>Lines 266--268: the domain shader when there is one, else the geometry shader.\<close>

definition lastShader :: "env \<Rightarrow> shader option" where
  "lastShader e = (case DS e of Some d \<Rightarrow> Some d | None \<Rightarrow> GS e)"

text \<open>Lines 270--279: the status the geometry/tessellation result is given beforehand.\<close>

definition presetGsStatus :: "env \<Rightarrow> string" where
  "presetGsStatus e =
     (if lastShader e \<noteq> None
      then ''No geometry/tessellation output fetched due to error processing vertex stage.''
      else ''No geometry and no tessellation shader bound.'')"

text \<open>The status strings of the routine.\<close>

definition vsStatusRootSig :: "env \<Rightarrow> string" where
  "vsStatusRootSig e =
     ''Couldn't enable stream-out in root signature: HRESULT: '' @
     ToStr e (hrCreateRootSignature e)"

definition vsStatusPipeline :: "env \<Rightarrow> string" where
  "vsStatusPipeline e =
     ''Couldn't create patched graphics pipeline: HRESULT: '' @ ToStr e (hrCreatePipeStateVS e)"

definition vsStatusOutOfMemory :: "env \<Rightarrow> 64 word \<Rightarrow> string" where
  "vsStatusOutOfMemory e newSize =
     ''Vertex output generated '' @ FmtU64 e newSize @
     '' bytes of data which ran out of memory''"

definition vsStatusMapFailed :: string where
  "vsStatusMapFailed = ''Couldn't read back vertex output data from GPU''"

definition vsStatusNoData :: string where
  "vsStatusNoData = ''Vertex output data from GPU contained no vertex data''"

definition gsStatusPipeline :: "env \<Rightarrow> string" where
  "gsStatusPipeline e =
     ''Couldn't create patched graphics pipeline: HRESULT: '' @ ToStr e (hrCreatePipeStateGS e)"

definition gsStatusStatistics :: "env \<Rightarrow> HRESULT \<Rightarrow> string" where
  "gsStatusStatistics e hr = ''Couldn't get stream-out statistics: HRESULT: '' @ ToStr e hr"

definition gsStatusOutOfMemory :: "env \<Rightarrow> 64 word \<Rightarrow> string" where
  "gsStatusOutOfMemory e newSize =
     ''Geometry/tessellation output generated '' @ FmtU64 e newSize @
     '' bytes of data which ran out of memory''"

definition gsStatusMapFailed :: string where
  "gsStatusMapFailed = ''Couldn't read back geometry/tessellation output data from GPU''"

definition gsStatusNoData :: string where
  "gsStatusNoData = ''No detectable output generated by geometry/tessellation shaders''"

text \<open>Lines 414--421, 518--524: the pool size is raised when the output needs more.\<close>

definition growFor :: "env \<Rightarrow> 64 word \<Rightarrow> replay \<Rightarrow> replay \<times> bool" where
  "growFor e outputSize s =
     (if m_SOBufferSize s < outputSize
      then (s\<lparr>m_SOBufferSize := CalcMeshOutputSize e (m_SOBufferSize s) outputSize\<rparr>, True)
      else (s, False))"

text \<open>The bookkeeping of Map and Unmap on the staging buffer.\<close>

definition mapStaging :: "replay \<Rightarrow> replay" where
  "mapStaging s = s\<lparr>stagingMapped := stagingMapped s + 1\<rparr>"

definition unmapStaging :: "replay \<Rightarrow> replay" where
  "unmapStaging s = (issue Unmap s)\<lparr>stagingMapped := stagingMapped s - 1\<rparr>"

subsection \<open>The vertex stage\<close>

text \<open>Lines 427--438 and 526--537.\<close>

definition vsRecreate ::
  "env \<Rightarrow> bool \<Rightarrow> D3D12PostVSData \<Rightarrow> replay \<Rightarrow> (D3D12PostVSData \<times> replay) + replay" where
  "vsRecreate e recreate ret s =
     (if recreate
      then let s1 = issue GPUSync s;
               newSize = m_SOBufferSize s1;
               created = CreateSOBuffers (hrsCreateSOBuffersVS e) s1
           in if \<not> fst created
              then Inl (setVsStatus (vsStatusOutOfMemory e newSize) ret, snd created)
              else Inr (snd created)
      else Inr s)"

fun is16 :: "idxbuf \<Rightarrow> bool" where
  "is16 (Idx16 xs) = True"
| "is16 (Idx32 xs) = False"

fun noIndices :: "idxbuf \<Rightarrow> idxbuf" where
  "noIndices (Idx16 xs) = Idx16 []"
| "noIndices (Idx32 xs) = Idx32 []"

text \<open>
  Lines 630--815: the command list is executed, the staging buffer is mapped and read.
  \<open>idxBuf0\<close> is the local \<^verbatim>\<open>idxBuf\<close>. When no bytes were written the routine returns
  at line 686 with the buffer still mapped.
\<close>

definition vsReadback ::
  "env \<Rightarrow> sobuild \<Rightarrow> resource \<Rightarrow> D3D12PostVSData \<Rightarrow> replay
     \<Rightarrow> (D3D12PostVSData \<times> replay) flow" where
  "vsReadback e b idxBuf0 ret s =
     (let s1 = issue GPUSync (issue ExecuteCommandLists s);
          s2 = issue Map s1
      in if FAILED (hrMapVS e)
         then Return (setVsStatus vsStatusMapFailed ret, s2)
         else
           let s3 = mapStaging s2;
               numBytesWritten = vsBytesWritten e
           in if numBytesWritten = 0
              then Return (setVsStatus vsStatusNoData (newPostVSData e), s3)
              else
                let numPrims = numBytesWritten div ucast (stride b);
                    s4 = issue (CreateCommittedResource numBytesWritten) s3;
                    vsoutBuffer = vsoutBufferResource e;
                    s5 = (if vsoutBuffer \<noteq> None then issue FillBuffer s4 else s4);
                    nf = deriveNearFar (arith e) (numPosComponents b) numPrims (vsFloats e)
                           (stride b);
                    s6 = unmapStaging s5;
                    act = action e;
                    withIdx = (Indexed act \<and> idxBuf0 \<noteq> None);
                    out = (vsout ret)
                            \<lparr>buf := vsoutBuffer,
                             vertStride := stride b,
                             nearPlane := fst nf,
                             farPlane := snd nf,
                             useIndices := Indexed act,
                             numVerts := numIndices act,
                             instStride :=
                               (if Instanced act
                                then ucast (numBytesWritten div ucast (max 1 (numInstances act)))
                                else 0),
                             idxBuf := (if withIdx then idxBuf0 else None),
                             idxFmt :=
                               (if withIdx
                                then (if is16 (ibufferData e) then DXGI_FORMAT_R16_UINT
                                      else DXGI_FORMAT_R32_UINT)
                                else idxFmt (vsout ret)),
                             hasPosOut := (posidx b \<ge> 0),
                             topo := rs_topo e\<rparr>
                in Next (ret\<lparr>vsin := (vsin ret)\<lparr>topo := rs_topo e\<rparr>, vsout := out\<rparr>, s6))"

text \<open>
  Lines 462--628: the indexed draw. \<^verbatim>\<open>sizeof(uint32_t) * sizeof(Vec4f)\<close> is 64. The
  buffer of the rewritten indices is only made when bytes were fetched.
\<close>

definition vsIndexed ::
  "env \<Rightarrow> sobuild \<Rightarrow> bool \<Rightarrow> D3D12PostVSData \<Rightarrow> replay
     \<Rightarrow> (D3D12PostVSData \<times> replay) flow" where
  "vsIndexed e b recreate ret s =
     (let s1 = (if ibufferBound e then issue GetBufferData s else s);
          fetched = (if ibufferBound e then ibufferData e else noIndices (ibufferData e));
          rb = rebaseIndices fetched (numIndices (action e)) (psoIBStripCutValue e);
          outputSize = of_nat (length (indices rb) * 4 * 16);
          grown = growFor e outputSize s1
      in case vsRecreate e (recreate \<or> snd grown) ret (fst grown) of
           Inl r \<Rightarrow> Return r
         | Inr s3 \<Rightarrow>
             let s4 = issue FillBuffer s3;
                 haveBytes = (idxBytes (idxdata rb) \<noteq> 0);
                 s5 = (if haveBytes
                       then issue FillBuffer
                              (issue (CreateCommittedResource (of_nat (idxBytes (idxdata rb))))
                                 s4)
                       else s4);
                 idxBuf0 = (if haveBytes then idxBufResource e else None)
             in vsReadback e b idxBuf0 ret s5)"

text \<open>Lines 318--815: the vertex stage for a signature that is not empty.\<close>

definition vsStage ::
  "env \<Rightarrow> D3D12PostVSData \<Rightarrow> replay \<Rightarrow> (D3D12PostVSData \<times> replay) flow" where
  "vsStage e ret s =
     (let b = buildVSDecls (OutputSig (VS e));
          s1 = issue CreatePipeState s
      in if FAILED (hrCreatePipeStateVS e)
         then Return (setVsStatus (vsStatusPipeline e) ret, s1)
         else
           let act = action e;
               outputSize = ucast (numIndices act) * ucast (numInstances act) *
                            ucast (stride b) + 64;
               grown = growFor e outputSize s1
           in if \<not> Indexed act
              then (case vsRecreate e (snd grown) ret (fst grown) of
                      Inl r \<Rightarrow> Return r
                    | Inr s3 \<Rightarrow> vsReadback e b None ret s3)
              else vsIndexed e b (snd grown) ret (fst grown))"

text \<open>Lines 816--830: the vertex shader has no outputs.\<close>

definition vsEmptySig :: "env \<Rightarrow> D3D12PostVSData \<Rightarrow> D3D12PostVSData" where
  "vsEmptySig e ret =
     ret\<lparr>vsin := (vsin ret)\<lparr>topo := rs_topo e\<rparr>,
         vsout := (vsout ret)
                    \<lparr>buf := None, instStride := 0, vertStride := 0, nearPlane := 0,
                     farPlane := 0, useIndices := False, hasPosOut := False, idxBuf := None,
                     topo := rs_topo e\<rparr>\<rparr>"

subsection \<open>The geometry/tessellation stage\<close>

text \<open>
  Lines 1043--1084: the incremental draws of a draw with \<open>n\<close> instances. After every
  1000th the command list is executed and the GPU is waited for.
\<close>

definition gsFlush :: "nat \<Rightarrow> replay \<Rightarrow> replay" where
  "gsFlush n s =
     foldl (\<lambda>s1 inst. if inst mod 1000 = 0
                       then issue GPUSync (issue ExecuteCommandLists s1) else s1)
       s [1..<Suc n]"

text \<open>
  Lines 913--1095: more than one instance. One dummy draw under a statistics query
  sizes the buffer; the incremental draws follow. The loop variable is a
  \<^verbatim>\<open>uint32_t\<close> compared with \<^verbatim>\<open>inst <= numInstances\<close>, which never fails for
  0xFFFFFFFF instances.
\<close>

definition gsMulti ::
  "env \<Rightarrow> sobuild \<Rightarrow> D3D12PostVSData \<Rightarrow> replay \<Rightarrow> fault + replay flow" where
  "gsMulti e b ret s =
     (let s1 = issue GPUSync (issue ExecuteCommandLists s);
          s2 = issue Map s1
      in if FAILED (hrMapStatistics e)
         then Inr (Return (setGsStatus (gsStatusStatistics e (hrMapStatistics e)) ret, s2))
         else
           let s3 = unmapStaging (mapStaging s2);
               SizeCounterBytes = AlignUp e (ucast (numInstances (action e)) * 8) 64;
               outputSize = SizeCounterBytes + statistics e * 3 * ucast (stride b)
           in case (if m_SOBufferSize s3 < outputSize
                    then let s4 = s3\<lparr>m_SOBufferSize :=
                                       CalcMeshOutputSize e (m_SOBufferSize s3) outputSize\<rparr>;
                             newSize = m_SOBufferSize s4;
                             created = CreateSOBuffers (hrsCreateSOBuffersGS e) s4
                         in if \<not> fst created
                            then Inl (setGsStatus (gsStatusOutOfMemory e newSize) ret,
                                      snd created)
                            else Inr (snd created)
                    else Inr s3) of
                Inl r \<Rightarrow> Inr (Return r)
              | Inr s6 \<Rightarrow>
                  if numInstances (action e) = 0xFFFFFFFF then Inl LoopForever
                  else Inr (Next (issue GPUSync (issue ExecuteCommandLists
                                    (gsFlush (unat (numInstances (action e))) s6)))))"

text \<open>
  Lines 1099--1186: one instance. Each turn of the \<^verbatim>\<open>while(true)\<close> takes one answer
  from the list. Where the buffers are created anew the turn ends with \<^verbatim>\<open>continue\<close>
  and no Unmap: the staging buffer that was mapped is released by CreateSOBuffers.
\<close>

fun probeLoop ::
  "env \<Rightarrow> sobuild \<Rightarrow> D3D12PostVSData \<Rightarrow> replay \<Rightarrow> probe list \<Rightarrow> fault + replay flow" where
  "probeLoop e b ret s [] = Inl ProbesExhausted"
| "probeLoop e b ret s (p # ps) =
     (let s1 = issue GPUSync (issue ExecuteCommandLists s);
          s2 = issue Map s1
      in if FAILED (probeMapHr p)
         then Inr (Return (setGsStatus (gsStatusStatistics e (probeMapHr p)) ret, s2))
         else
           let s3 = mapStaging s2;
               outputSize = probePrimitivesStorageNeeded p * 3 * ucast (stride b)
           in if m_SOBufferSize s3 < outputSize
              then let s4 = s3\<lparr>m_SOBufferSize :=
                                 CalcMeshOutputSize e (m_SOBufferSize s3) outputSize\<rparr>;
                       newSize = m_SOBufferSize s4
                   in if \<not> fst (CreateSOBuffers (probeCreateHrs p) s4)
                      then Inr (Return (setGsStatus (gsStatusOutOfMemory e newSize) ret,
                                        snd (CreateSOBuffers (probeCreateHrs p) s4)))
                      else probeLoop e b ret (snd (CreateSOBuffers (probeCreateHrs p) s4)) ps
              else Inr (Next (unmapStaging s3)))"

text \<open>
  Lines 1189--1407: the final command list is executed, the staging buffer is mapped,
  the counters are decoded and the result is filled in. \<open>lastSh\<close> is the last shader.
\<close>

definition gsReadback ::
  "env \<Rightarrow> sobuild \<Rightarrow> shader \<Rightarrow> D3D12PostVSData \<Rightarrow> replay
     \<Rightarrow> fault + (D3D12PostVSData \<times> replay)" where
  "gsReadback e b lastSh ret s =
     (let s1 = issue GPUSync (issue ExecuteCommandLists s);
          s2 = issue Map s1
      in if FAILED (hrMapGS e)
         then Inr (setGsStatus gsStatusMapFailed ret, s2)
         else
           let s3 = mapStaging s2;
               act = action e
           in case decodeCounters (stride b) (numInstances act) (gsCounters e) of
                None \<Rightarrow> Inl DivisionByZero
              | Some (instData0, numBytesWritten) \<Rightarrow>
                  if numBytesWritten = 0
                  then Inr (setGsStatus gsStatusNoData ret, unmapStaging s3)
                  else if stride b = 0 then Inl DivisionByZero
                  else
                    let numVerts0 = numBytesWritten div ucast (stride b);
                        s4 = issue (CreateCommittedResource numBytesWritten) s3;
                        gsoutBuffer = gsoutBufferResource e;
                        s5 = (if gsoutBuffer \<noteq> None then issue FillBuffer s4 else s4);
                        nf = deriveNearFar (arith e) (numPosComponents b) numVerts0 (gsFloats e)
                               (stride b);
                        s6 = unmapStaging s5;
                        nv = (ucast numVerts0 :: 32 word);
                        out = (gsout ret)
                                \<lparr>buf := gsoutBuffer,
                                 instStride :=
                                   (if Instanced act
                                    then ucast (numBytesWritten div
                                                ucast (max 1 (numInstances act)))
                                    else 0),
                                 vertStride := stride b,
                                 nearPlane := fst nf,
                                 farPlane := snd nf,
                                 useIndices := False,
                                 hasPosOut := (posidx b \<ge> 0),
                                 idxBuf := None,
                                 topo := gsoutTopo (OutputTopology lastSh),
                                 numVerts :=
                                   (if Instanced act then nv div max 1 (numInstances act)
                                    else nv),
                                 instData := instData0\<rparr>
                    in Inr (ret\<lparr>gsout := out\<rparr>, s6))"

text \<open>Lines 832--1407.\<close>

definition gsStage ::
  "env \<Rightarrow> shader \<Rightarrow> D3D12PostVSData \<Rightarrow> replay \<Rightarrow> fault + (D3D12PostVSData \<times> replay)" where
  "gsStage e lastSh ret0 s =
     (let ret = setGsStatus [] ret0;
          b = buildGSDecls (OutputSig lastSh);
          s1 = issue CreatePipeState s
      in if FAILED (hrCreatePipeStateGS e)
         then Inr (setGsStatus (gsStatusPipeline e) ret, s1)
         else
           case (if numInstances (action e) > 1 then gsMulti e b ret s1
                 else probeLoop e b ret s1 (probes e)) of
             Inl f \<Rightarrow> Inl f
           | Inr (Return r) \<Rightarrow> Inr r
           | Inr (Next s2) \<Rightarrow> gsReadback e b lastSh ret s2)"

subsection \<open>InitPostVSBuffers\<close>

text \<open>Lines 312--1409: the two stages, once the root signature is there.\<close>

definition afterRootSig ::
  "env \<Rightarrow> D3D12PostVSData \<Rightarrow> replay \<Rightarrow> fault + (D3D12PostVSData \<times> replay)" where
  "afterRootSig e ret s =
     (case (if OutputSig (VS e) \<noteq> [] then vsStage e ret s else Next (vsEmptySig e ret, s)) of
        Return r \<Rightarrow> Inr r
      | Next (ret1, s1) \<Rightarrow>
          (case lastShader e of
             Some lastSh \<Rightarrow> gsStage e lastSh ret1 s1
           | None \<Rightarrow> Inr (ret1, s1)))"

text \<open>Lines 266--310: the preset status and the root signature that allows stream-out.\<close>

definition captureStages ::
  "env \<Rightarrow> D3D12PostVSData \<Rightarrow> replay \<Rightarrow> fault + (D3D12PostVSData \<times> replay)" where
  "captureStages e ret s =
     (let ret1 = setGsStatus (presetGsStatus e) ret
      in if \<not> rootsigAllowsStreamOutput e
         then let s1 = issue CreateRootSignature s
              in if FAILED (hrCreateRootSignature e)
                 then Inr (setVsStatus (vsStatusRootSig e) ret1, s1)
                 else afterRootSig e ret1 s1
         else afterRootSig e ret1 s)"

text \<open>Lines 195--238: the draws that cannot be captured.\<close>

definition capture ::
  "env \<Rightarrow> D3D12PostVSData \<Rightarrow> replay \<Rightarrow> fault + (D3D12PostVSData \<times> replay)" where
  "capture e ret s =
     (if rs_pipe e = None then Inr (setBothStatus ''No pipeline bound'' ret, s)
      else if \<not> IsGraphics e then Inr (setBothStatus ''No graphics pipeline bound'' ret, s)
      else if VS_BytecodeLength e = 0
      then Inr (setBothStatus ''No vertex shader in pipeline'' ret, s)
      else
        let ret1 = ret\<lparr>vsin := (vsin ret)\<lparr>topo := rs_topo e\<rparr>,
                       vsout := (vsout ret)\<lparr>topo := rs_topo e\<rparr>\<rparr>
        in if numIndices (action e) = 0
           then Inr (setBothStatus ''Empty drawcall (0 indices/vertices)'' ret1, s)
           else if numInstances (action e) = 0
           then Inr (setBothStatus ''Empty drawcall (0 instances)'' ret1, s)
           else captureStages e ret1 s)"

text \<open>
  Lines 176--185 and the body: the alias is resolved, a cached event returns at once, and
  otherwise the new entry \<^verbatim>\<open>ret\<close> of the cache is what the body writes to.
\<close>

definition InitPostVSBuffers :: "env \<Rightarrow> replay \<Rightarrow> 32 word \<Rightarrow> fault + replay" where
  "InitPostVSBuffers e s eventId0 =
     (let eventId = resolveAlias s eventId0
      in if m_PostVSData s eventId \<noteq> None then Inr s
         else case capture e (newPostVSData e) s of
                Inl f \<Rightarrow> Inl f
              | Inr (ret, s1) \<Rightarrow> Inr (s1\<lparr>m_PostVSData := (m_PostVSData s1)(eventId \<mapsto> ret)\<rparr>))"

subsection \<open>Concrete inputs\<close>


text \<open>
  The counters of five instances that each write three vertices of 16 bytes.
\<close>

definition witnessCounters :: "nat \<Rightarrow> 64 word" where
  "witnessCounters i = 48 * (of_nat i + 1)"

text \<open>
  Signatures: a position that is declared with three components and stands second; one
  with a parameter of stream 1 before the position; one whose position stands first; and
  one whose only position is in stream 1.
\<close>

definition sigTexcoord :: SigParameter where
  "sigTexcoord = \<lparr>semanticName = ''TEXCOORD'', semanticIndex = 0, compCount = 2,
                   systemValue = Undefined, stream = 0\<rparr>"

definition sigColor :: SigParameter where
  "sigColor = \<lparr>semanticName = ''COLOR'', semanticIndex = 0, compCount = 4,
                systemValue = Undefined, stream = 0\<rparr>"

definition sigPosition :: SigParameter where
  "sigPosition = \<lparr>semanticName = ''SV_Position'', semanticIndex = 0, compCount = 3,
                   systemValue = Position, stream = 0\<rparr>"

definition witnessSig :: "SigParameter list" where
  "witnessSig = [sigTexcoord, sigPosition, sigColor]"

definition witnessSigStreams :: "SigParameter list" where
  "witnessSigStreams = [sigTexcoord, sigColor\<lparr>stream := 1\<rparr>, sigPosition]"

definition witnessSigFirst :: "SigParameter list" where
  "witnessSigFirst = [sigPosition, sigTexcoord]"

definition streamOneSig :: "SigParameter list" where
  "streamOneSig = [sigTexcoord, sigPosition\<lparr>stream := 1\<rparr>]"

text \<open>Pools: one of a size at the guard, one of 1024 bytes.\<close>

definition poolAtGuard :: pool where
  "poolAtGuard = \<lparr>m_SOBufferSize = 0xFFFF0000, m_SOBuffer = True, m_SOStagingBuffer = True,
                   m_SOPatchedIndexBuffer = True, m_SOQueryHeap = True, stagingMapped = 0,
                   calls = []\<rparr>"

definition poolSmall :: pool where
  "poolSmall = \<lparr>m_SOBufferSize = 1024, m_SOBuffer = True, m_SOStagingBuffer = True,
                 m_SOPatchedIndexBuffer = True, m_SOQueryHeap = True, stagingMapped = 0,
                 calls = []\<rparr>"

definition hrsAllOk :: so_hrs where
  "hrsAllOk = \<lparr>hrSOBuffer = S_OK, hrStagingBuffer = S_OK, hrPatchedIndexBuffer = S_OK,
                hrQueryHeap = S_OK\<rparr>"

definition hrsStagingFails :: so_hrs where
  "hrsStagingFails = hrsAllOk\<lparr>hrStagingBuffer := E_OUTOFMEMORY\<rparr>"

text \<open>
  Float arithmetic for the concrete inputs: the IEEE results on the operands that occur
  there (2 - 1 = 1, 3 - 1 = 2, 3 - 4 = -1, 1 - 2 = -1, 2 * 2 = 4, 2 / 1 = 2,
  1 / 2 = 0.5, -1 / -1 = 1); no other operands are used.
\<close>

definition witnessArith :: farith where
  "witnessArith =
     \<lparr>fsub = (\<lambda>a b. if a = 0x40000000 \<and> b = 0x3F800000 then 0x3F800000
                    else if a = 0x40400000 \<and> b = 0x3F800000 then 0x40000000
                    else if a = 0x40400000 \<and> b = 0x40800000 then 0xBF800000
                    else if a = 0x3F800000 \<and> b = 0x40000000 then 0xBF800000
                    else 0),
      fmul = (\<lambda>a b. if a = 0x40000000 \<and> b = 0x40000000 then 0x40800000 else 0),
      fdiv = (\<lambda>a b. if a = 0x40000000 \<and> b = 0x3F800000 then 0x40000000
                    else if a = 0x3F800000 \<and> b = 0x40000000 then 0x3F000000
                    else if a = 0xBF800000 \<and> b = 0xBF800000 then 0x3F800000
                    else 0)\<rparr>"

text \<open>
  Two vertices of 16 bytes with (z, w) = (1, 1) and (3, 2), which lie on z = 2w - 1; and
  one vertex with (z, w) = (0.5, 1).
\<close>

definition witnessFloats :: "nat \<Rightarrow> float" where
  "witnessFloats i =
     (if i < 8 then [0, 0, 0x3F800000, 0x3F800000, 0, 0, 0x40400000, 0x40000000] ! i else 0)"


text \<open>
  A draw of three vertices, not indexed, one instance, no geometry or tessellation
  shader, with a device that answers every call with S\_OK; the helpers of other files
  are set to simple functions.
\<close>

definition E_FAIL :: HRESULT where
  "E_FAIL = 0x80004005"

text \<open>An entry with NULL, 0, false, the undefined topology and no message in every member.\<close>

definition emptyStage :: StageData where
  "emptyStage =
     \<lparr>buf = None, topo = TOPOLOGY_UNDEFINED, vertStride = 0, numVerts = 0, instStride = 0,
      instData = [], useIndices = False, idxBuf = None, idxFmt = DXGI_FORMAT_UNKNOWN,
      hasPosOut = False, nearPlane = 0, farPlane = 0, status = []\<rparr>"

definition emptyPostVS :: D3D12PostVSData where
  "emptyPostVS = \<lparr>vsin = emptyStage, vsout = emptyStage, gsout = emptyStage\<rparr>"

definition envBase :: env where
  "envBase =
     \<lparr>rs_pipe = Some 1, IsGraphics = True, VS_BytecodeLength = 1024,
      rs_topo = TOPOLOGY_TRIANGLELIST,
      action = \<lparr>numIndices = 3, numInstances = 1, Indexed = False, Instanced = False\<rparr>,
      VS = \<lparr>OutputSig = witnessSigFirst, OutputTopology = TOPOLOGY_UNDEFINED\<rparr>,
      GS = None, DS = None,
      rootsigAllowsStreamOutput = True,
      psoIBStripCutValue = STRIP_CUT_VALUE_DISABLED,
      ibufferBound = False, ibufferData = Idx16 [],
      hrCreateRootSignature = S_OK, hrCreatePipeStateVS = S_OK, hrCreatePipeStateGS = S_OK,
      hrsCreateSOBuffersVS = hrsAllOk, hrsCreateSOBuffersGS = hrsAllOk,
      hrMapVS = S_OK, hrMapStatistics = S_OK, hrMapGS = S_OK,
      idxBufResource = None, vsoutBufferResource = Some 100, gsoutBufferResource = Some 101,
      vsBytesWritten = 72, vsFloats = witnessFloats,
      statistics = 0, probes = [],
      gsCounters = (\<lambda>i. 0), gsFloats = (\<lambda>i. 0),
      CalcMeshOutputSize = (\<lambda>cur req. max (2 * cur) req),
      AlignUp = (\<lambda>x a. (x + (a - 1)) AND NOT (a - 1)),
      ToStr = (\<lambda>hr. if hr = E_FAIL then ''E_FAIL'' else ''HRESULT''),
      FmtU64 = (\<lambda>n. ''N''),
      arith = witnessArith,
      newPostVSData = emptyPostVS\<rparr>"

definition triangleStripShader :: shader where
  "triangleStripShader = \<lparr>OutputSig = witnessSigFirst, OutputTopology = TOPOLOGY_TRIANGLESTRIP\<rparr>"

text \<open>A replay with a pool of 1 MiB, nothing cached, and event 9 an alias of event 7.\<close>

definition replay0 :: replay where
  "replay0 =
     \<lparr>m_SOBufferSize = 0x100000, m_SOBuffer = True, m_SOStagingBuffer = True,
      m_SOPatchedIndexBuffer = True, m_SOQueryHeap = True, stagingMapped = 0, calls = [],
      m_PostVSData = Map.empty, m_PostVSAlias = [9 \<mapsto> 7]\<rparr>"


section \<open>Theorems\<close>

subsection \<open>Scratch pool\<close>

lemma calls_issue: "calls (issue c p) = calls p @ [c]"
  by (simp add: issue_def)

lemma size_issue: "m_SOBufferSize (issue c p) = m_SOBufferSize p"
  by (simp add: issue_def)

lemma CreateSOBuffers_guard:
  "m_SOBufferSize p \<ge> 0xFFFF0000 \<Longrightarrow>
     CreateSOBuffers hrs p =
       (False, p\<lparr>m_SOBuffer := False, m_SOStagingBuffer := False,
                  m_SOPatchedIndexBuffer := False, m_SOQueryHeap := False,
                  stagingMapped := 0, m_SOBufferSize := 0\<rparr>)"
  by (simp add: CreateSOBuffers_def Let_def)

lemma CreateSOBuffers_ok_iff:
  "fst (CreateSOBuffers hrs p) \<longleftrightarrow>
     (m_SOBufferSize p < 0xFFFF0000 \<and> \<not> FAILED (hrSOBuffer hrs) \<and>
      \<not> FAILED (hrStagingBuffer hrs) \<and> \<not> FAILED (hrPatchedIndexBuffer hrs) \<and>
      \<not> FAILED (hrQueryHeap hrs))"
  by (auto simp: CreateSOBuffers_def Let_def not_le)

lemma CreateSOBuffers_failed_size:
  "\<not> fst (CreateSOBuffers hrs p) \<Longrightarrow> m_SOBufferSize (snd (CreateSOBuffers hrs p)) = 0"
  by (auto simp: CreateSOBuffers_def Let_def size_issue split: if_splits)

text \<open>
  C9. CreateSOBuffers always returns a boolean. It returns false exactly when the size
  asked for is at or above 0xFFFF0000 or one of the four creations fails; whenever it
  returns false the pool size is zero afterwards; and on the size guard the call log is
  unchanged: no creation was attempted.
\<close>

theorem C9_CreateSOBuffers_failure:
  "(fst (CreateSOBuffers hrs p) \<longleftrightarrow>
      (m_SOBufferSize p < 0xFFFF0000 \<and> \<not> FAILED (hrSOBuffer hrs) \<and>
       \<not> FAILED (hrStagingBuffer hrs) \<and> \<not> FAILED (hrPatchedIndexBuffer hrs) \<and>
       \<not> FAILED (hrQueryHeap hrs)))
   \<and> (\<not> fst (CreateSOBuffers hrs p) \<longrightarrow>
        m_SOBufferSize (snd (CreateSOBuffers hrs p)) = 0)
   \<and> (m_SOBufferSize p \<ge> 0xFFFF0000 \<longrightarrow>
        \<not> fst (CreateSOBuffers hrs p) \<and>
        m_SOBufferSize (snd (CreateSOBuffers hrs p)) = 0 \<and>
        calls (snd (CreateSOBuffers hrs p)) = calls p)"
  using CreateSOBuffers_ok_iff [of hrs p] CreateSOBuffers_failed_size [of hrs p]
    CreateSOBuffers_guard [of p hrs]
  by simp

theorem C9_CreateSOBuffers_failure_witness:
  "\<not> fst (CreateSOBuffers hrsAllOk poolAtGuard)
   \<and> m_SOBufferSize (snd (CreateSOBuffers hrsAllOk poolAtGuard)) = 0
   \<and> calls (snd (CreateSOBuffers hrsAllOk poolAtGuard)) = []
   \<and> \<not> fst (CreateSOBuffers hrsStagingFails poolSmall)
   \<and> m_SOBufferSize (snd (CreateSOBuffers hrsStagingFails poolSmall)) = 0
   \<and> calls (snd (CreateSOBuffers hrsStagingFails poolSmall)) =
       [CreateCommittedResource 1088, CreateCommittedResource 1088]"
proof -
  have g: "m_SOBufferSize poolAtGuard \<ge> 0xFFFF0000" by (simp add: poolAtGuard_def)
  have f: "FAILED (hrStagingBuffer hrsStagingFails)"
    by (simp add: hrsStagingFails_def FAILED_def E_OUTOFMEMORY_def)
  have c: "calls (snd (CreateSOBuffers hrsStagingFails poolSmall)) =
             [CreateCommittedResource 1088, CreateCommittedResource 1088]"
    by (simp add: CreateSOBuffers_def Let_def poolSmall_def hrsStagingFails_def hrsAllOk_def
          FAILED_def S_OK_def E_OUTOFMEMORY_def issue_def)
  show ?thesis
    using C9_CreateSOBuffers_failure [of hrsAllOk poolAtGuard]
      C9_CreateSOBuffers_failure [of hrsStagingFails poolSmall] g f c
    by (simp add: poolAtGuard_def)
qed

subsection \<open>The index rebaser\<close>




















text \<open>The rewriting loop, as a map over the indices read.\<close>

lemma rebase16:
  "n \<le> length xs \<Longrightarrow>
   foldl (rebaseStep sc remap) (Idx16 xs) [0..<n] =
     Idx16 (map (\<lambda>x. if sc \<noteq> 0 \<and> ucast x = sc then x else of_nat (remapAt remap (ucast x)))
              (take n xs) @ drop n xs)"
proof (induction n)
  case 0
  then show ?case by simp
next
  case (Suc n)
  then have n: "n < length xs" by simp
  have d: "drop n xs = xs ! n # drop (Suc n) xs" using n by (simp add: Cons_nth_drop_Suc)
  show ?case using Suc.IH n
    by (simp add: rebaseStep_def Let_def nth_append list_update_append take_Suc_conv_app_nth d)
qed

lemma rebase32:
  "n \<le> length xs \<Longrightarrow>
   foldl (rebaseStep sc remap) (Idx32 xs) [0..<n] =
     Idx32 (map (\<lambda>x. if sc \<noteq> 0 \<and> x = sc then x else of_nat (remapAt remap x))
              (take n xs) @ drop n xs)"
proof (induction n)
  case 0
  then show ?case by simp
next
  case (Suc n)
  then have n: "n < length xs" by simp
  have d: "drop n xs = xs ! n # drop (Suc n) xs" using n by (simp add: Cons_nth_drop_Suc)
  show ?case using Suc.IH n
    by (simp add: rebaseStep_def Let_def nth_append list_update_append take_Suc_conv_app_nth d)
qed



lemma rebase_keep:
  assumes "n \<le> idxCount ib" "n \<le> i"
  shows "readIdx (foldl (rebaseStep sc remap) ib [0..<n]) i = readIdx ib i"
    and "idxCount (foldl (rebaseStep sc remap) ib [0..<n]) = idxCount ib"
proof -
  show "readIdx (foldl (rebaseStep sc remap) ib [0..<n]) i = readIdx ib i"
  proof (cases "i < idxCount ib")
    case True
    then show ?thesis using assms by (cases ib) (simp_all add: rebase16 rebase32 nth_append)
  next
    case False
    then show ?thesis using assms by (cases ib) (simp_all add: rebase16 rebase32 nth_append)
  qed
  show "idxCount (foldl (rebaseStep sc remap) ib [0..<n]) = idxCount ib"
    using assms by (cases ib) (simp_all add: rebase16 rebase32)
qed









subsection \<open>The declaration builder\<close>

lemma sodecls_addDecl: "sodecls (addDecl b x) = sodecls b @ [declOf x]"
  by (simp add: addDecl_def Let_def)

lemma posidx_addDecl:
  "posidx (addDecl b x) = (if systemValue x = Position then int (length (sodecls b)) else posidx b)"
  by (simp add: addDecl_def Let_def)

lemma sodecls_foldl:
  "sodecls (foldl addDecl b sig) = sodecls b @ map declOf sig"
  by (induction sig arbitrary: b) (simp_all add: sodecls_addDecl)

lemma posidx_foldl_none:
  "\<forall>x\<in>set sig. systemValue x \<noteq> Position \<Longrightarrow> posidx (foldl addDecl b sig) = posidx b"
  by (induction sig arbitrary: b) (simp_all add: posidx_addDecl)

lemma posidx_foldl:
  "lastPosition sig p \<Longrightarrow> posidx (foldl addDecl b sig) = int (length (sodecls b) + p)"
proof (induction sig arbitrary: b p)
  case Nil
  then show ?case by (simp add: lastPosition_def)
next
  case (Cons x xs)
  show ?case
  proof (cases p)
    case 0
    have "\<forall>y\<in>set xs. systemValue y \<noteq> Position"
    proof
      fix y assume "y \<in> set xs"
      then obtain q where q: "q < length xs" "xs ! q = y" by (auto simp: in_set_conv_nth)
      with Cons.prems 0 have "systemValue ((x # xs) ! Suc q) \<noteq> Position"
        unfolding lastPosition_def by (metis Suc_less_eq length_Cons zero_less_Suc)
      with q show "systemValue y \<noteq> Position" by simp
    qed
    then show ?thesis using Cons.prems 0
      by (simp add: posidx_foldl_none posidx_addDecl lastPosition_def)
  next
    case (Suc p')
    have "lastPosition xs p'"
      unfolding lastPosition_def
    proof (intro conjI allI impI)
      show "p' < length xs" using Cons.prems Suc by (simp add: lastPosition_def)
      show "systemValue (xs ! p') = Position" using Cons.prems Suc by (simp add: lastPosition_def)
      fix q assume "p' < q \<and> q < length xs"
      then have "p < Suc q \<and> Suc q < length (x # xs)" using Suc by simp
      then have "systemValue ((x # xs) ! Suc q) \<noteq> Position"
        using Cons.prems unfolding lastPosition_def by blast
      then show "systemValue (xs ! q) \<noteq> Position" by simp
    qed
    from Cons.IH [OF this, of "addDecl b x"] show ?thesis using Suc
      by (simp add: sodecls_addDecl)
  qed
qed

lemma foldl_stream0:
  "foldl addDeclStream0 b sig = foldl addDecl b (filter (\<lambda>s. stream s = 0) sig)"
  by (induction sig arbitrary: b) (auto simp: addDeclStream0_def)

lemma shift_at:
  assumes "posidx b = int p" "p < length (sodecls b)"
  shows "sodecls (shiftPosition b) = sodecls b ! p # take p (sodecls b) @ drop (Suc p) (sodecls b)"
proof (cases "p = 0")
  case True
  then have "shiftPosition b = b" using assms by (simp add: shiftPosition_def)
  then show ?thesis using True assms by (cases "sodecls b") simp_all
next
  case False
  have n: "nat (posidx b) = p" using assms by simp
  have "posidx b > 0" using False assms by simp
  then show ?thesis unfolding shiftPosition_def Let_def n by simp
qed

lemma shifted_fold:
  assumes "lastPosition sig p"
  shows "sodecls (shiftPosition (foldl addDecl sobuild0 sig)) =
           declOf (sig ! p) # map declOf (take p sig @ drop (Suc p) sig)"
    and "stride (foldl addDecl sobuild0 sig) = 0 \<Longrightarrow>
         sodecls (shiftPosition ((foldl addDecl sobuild0 sig)\<lparr>stride := 4\<rparr>)) =
           declOf (sig ! p) # map declOf (take p sig @ drop (Suc p) sig)"
proof -
  have p: "p < length sig" using assms by (simp add: lastPosition_def)
  let ?b = "foldl addDecl sobuild0 sig"
  have sd: "sodecls ?b = map declOf sig" by (simp add: sodecls_foldl sobuild0_def)
  have pi: "posidx ?b = int p"
    using posidx_foldl [OF assms, of sobuild0] by (simp add: sobuild0_def)
  show "sodecls (shiftPosition ?b) = declOf (sig ! p) # map declOf (take p sig @ drop (Suc p) sig)"
    using shift_at [of ?b p] sd pi p by (simp add: take_map drop_map)
  show "sodecls (shiftPosition (?b\<lparr>stride := 4\<rparr>)) =
          declOf (sig ! p) # map declOf (take p sig @ drop (Suc p) sig)"
    using shift_at [of "?b\<lparr>stride := 4\<rparr>" p] sd pi p by (simp add: take_map drop_map)
qed

lemma declOf_position:
  "systemValue x = Position \<Longrightarrow>
   declOf x = \<lparr>Stream = 0, SemanticName = semanticName x, SemanticIndex = semanticIndex x,
               StartComponent = 0, ComponentCount = 4, OutputSlot = 0\<rparr>"
  by (simp add: declOf_def)

lemma take_drop_0: "p = 0 \<Longrightarrow> p < length xs \<Longrightarrow> xs ! p # take p xs @ drop (Suc p) xs = xs"
  by (cases xs) simp_all

text \<open>
  C2, as amended. In the vertex pass, and in the geometry/tessellation pass among the
  parameters of stream 0 (the others are skipped): when a parameter is marked as the
  position (the last one, should several be), the list of declarations starts with its
  entry, with a component count of 4 whatever the signature says; the entries of the
  other parameters follow in the order of the signature; and when it is the first
  already the list is in the order of the signature.
\<close>

theorem C2_position_first:
  "(lastPosition sig p \<longrightarrow>
      sodecls (buildVSDecls sig) =
        \<lparr>Stream = 0, SemanticName = semanticName (sig ! p),
         SemanticIndex = semanticIndex (sig ! p), StartComponent = 0, ComponentCount = 4,
         OutputSlot = 0\<rparr> # map declOf (take p sig @ drop (Suc p) sig)
      \<and> (p = 0 \<longrightarrow> sodecls (buildVSDecls sig) = map declOf sig))
   \<and> (lastPosition (filter (\<lambda>x. stream x = 0) sig) p \<longrightarrow>
      sodecls (buildGSDecls sig) =
        \<lparr>Stream = 0, SemanticName = semanticName (filter (\<lambda>x. stream x = 0) sig ! p),
         SemanticIndex = semanticIndex (filter (\<lambda>x. stream x = 0) sig ! p),
         StartComponent = 0, ComponentCount = 4, OutputSlot = 0\<rparr> #
        map declOf (take p (filter (\<lambda>x. stream x = 0) sig) @
                    drop (Suc p) (filter (\<lambda>x. stream x = 0) sig))
      \<and> (p = 0 \<longrightarrow> sodecls (buildGSDecls sig) = map declOf (filter (\<lambda>x. stream x = 0) sig)))"
proof (intro conjI impI)
  assume lp: "lastPosition sig p"
  then have p: "p < length sig" "systemValue (sig ! p) = Position"
    by (simp_all add: lastPosition_def)
  have vs: "sodecls (buildVSDecls sig) = declOf (sig ! p) # map declOf (take p sig @ drop (Suc p) sig)"
    using shifted_fold [OF lp] by (simp add: buildVSDecls_def Let_def)
  then show "sodecls (buildVSDecls sig) =
        \<lparr>Stream = 0, SemanticName = semanticName (sig ! p),
         SemanticIndex = semanticIndex (sig ! p), StartComponent = 0, ComponentCount = 4,
         OutputSlot = 0\<rparr> # map declOf (take p sig @ drop (Suc p) sig)"
    using declOf_position [OF p(2)] by simp
  assume "p = 0"
  then show "sodecls (buildVSDecls sig) = map declOf sig"
    using vs p(1) take_drop_0 [of p "map declOf sig"] by (simp add: take_map drop_map)
next
  let ?sig = "filter (\<lambda>x. stream x = 0) sig"
  assume lp: "lastPosition ?sig p"
  then have p: "p < length ?sig" "systemValue (?sig ! p) = Position"
    by (simp_all add: lastPosition_def)
  have gs: "sodecls (buildGSDecls sig) =
              declOf (?sig ! p) # map declOf (take p ?sig @ drop (Suc p) ?sig)"
    using shifted_fold(1) [OF lp] by (simp add: buildGSDecls_def foldl_stream0)
  then show "sodecls (buildGSDecls sig) =
        \<lparr>Stream = 0, SemanticName = semanticName (?sig ! p),
         SemanticIndex = semanticIndex (?sig ! p),
         StartComponent = 0, ComponentCount = 4, OutputSlot = 0\<rparr> #
        map declOf (take p ?sig @ drop (Suc p) ?sig)"
    using declOf_position [OF p(2)] by simp
  assume "p = 0"
  then show "sodecls (buildGSDecls sig) = map declOf ?sig"
    using gs p(1) take_drop_0 [of p "map declOf ?sig"] by (simp add: take_map drop_map)
qed

lemma witness_positions:
  "lastPosition witnessSig 1"
  "lastPosition (filter (\<lambda>x. stream x = 0) witnessSigStreams) 1"
  "lastPosition witnessSigFirst 0"
  by (auto simp: lastPosition_def witnessSig_def witnessSigStreams_def witnessSigFirst_def
        sigTexcoord_def sigColor_def sigPosition_def nth_Cons' less_Suc_eq)

theorem C2_position_first_witness:
  "sodecls (buildVSDecls witnessSig) =
     [\<lparr>Stream = 0, SemanticName = ''SV_Position'', SemanticIndex = 0, StartComponent = 0,
       ComponentCount = 4, OutputSlot = 0\<rparr>,
      \<lparr>Stream = 0, SemanticName = ''TEXCOORD'', SemanticIndex = 0, StartComponent = 0,
       ComponentCount = 2, OutputSlot = 0\<rparr>,
      \<lparr>Stream = 0, SemanticName = ''COLOR'', SemanticIndex = 0, StartComponent = 0,
       ComponentCount = 4, OutputSlot = 0\<rparr>]
   \<and> sodecls (buildGSDecls witnessSigStreams) =
     [\<lparr>Stream = 0, SemanticName = ''SV_Position'', SemanticIndex = 0, StartComponent = 0,
       ComponentCount = 4, OutputSlot = 0\<rparr>,
      \<lparr>Stream = 0, SemanticName = ''TEXCOORD'', SemanticIndex = 0, StartComponent = 0,
       ComponentCount = 2, OutputSlot = 0\<rparr>]
   \<and> sodecls (buildVSDecls witnessSigFirst) = map declOf witnessSigFirst"
proof -
  note defs = witnessSig_def witnessSigStreams_def witnessSigFirst_def sigTexcoord_def
    sigColor_def sigPosition_def declOf_def
  have a: "sodecls (buildVSDecls witnessSig) =
        \<lparr>Stream = 0, SemanticName = semanticName (witnessSig ! 1),
         SemanticIndex = semanticIndex (witnessSig ! 1), StartComponent = 0, ComponentCount = 4,
         OutputSlot = 0\<rparr> # map declOf (take 1 witnessSig @ drop (Suc 1) witnessSig)"
    using C2_position_first [of witnessSig 1] witness_positions(1) by blast
  have b: "sodecls (buildGSDecls witnessSigStreams) =
        \<lparr>Stream = 0,
         SemanticName = semanticName (filter (\<lambda>x. stream x = 0) witnessSigStreams ! 1),
         SemanticIndex = semanticIndex (filter (\<lambda>x. stream x = 0) witnessSigStreams ! 1),
         StartComponent = 0, ComponentCount = 4, OutputSlot = 0\<rparr> #
        map declOf (take 1 (filter (\<lambda>x. stream x = 0) witnessSigStreams) @
                    drop (Suc 1) (filter (\<lambda>x. stream x = 0) witnessSigStreams))"
    using C2_position_first [of witnessSigStreams 1] witness_positions(2) by blast
  have c: "sodecls (buildVSDecls witnessSigFirst) = map declOf witnessSigFirst"
    using C2_position_first [of witnessSigFirst 0] witness_positions(3) by blast
  show ?thesis
    unfolding a b c by (simp add: defs)
qed

text \<open>
  The claim as it stands fails in the geometry/tessellation pass: a position in stream 1
  is skipped, and the list holds no entry for it.
\<close>

theorem C2_position_first_counterexample:
  "systemValue (streamOneSig ! 1) = Position
   \<and> sodecls (buildGSDecls streamOneSig) =
       [\<lparr>Stream = 0, SemanticName = ''TEXCOORD'', SemanticIndex = 0, StartComponent = 0,
         ComponentCount = 2, OutputSlot = 0\<rparr>]"
  by (simp add: streamOneSig_def sigTexcoord_def sigPosition_def buildGSDecls_def
        addDeclStream0_def addDecl_def declOf_def sobuild0_def shiftPosition_def Let_def)

subsection \<open>The counters of a draw with several instances\<close>

lemma instLoop:
  "foldl (instStep vstride counters) ([], 0) [0..<n] =
     (map (\<lambda>i. \<lparr>instNumVerts = ucast ((counters i - prevCounter counters i) div ucast vstride),
                 instBufOffset = prevCounter counters i\<rparr>) [0..<n],
      prevCounter counters n)"
  by (induction n) (simp_all add: instStep_def prevCounter_def Let_def)

lemma numVerts_nat:
  fixes c p :: "64 word" and vstride :: "32 word"
  assumes "p \<le> c" "unat c < 2 ^ 32" "vstride \<noteq> 0"
  shows "unat (ucast ((c - p) div ucast vstride) :: 32 word) = (unat c - unat p) div unat vstride"
proof -
  have "unat vstride < 2 ^ 32" using unsigned_less [of vstride] by simp
  then have "unat vstride < 2 ^ 64" by simp
  then have s: "unat (ucast vstride :: 64 word) = unat vstride"
    by (simp add: unsigned_ucast_eq take_bit_nat_eq_self)
  have d: "unat (c - p) = unat c - unat p" using assms(1) by (simp add: unat_sub)
  have q: "unat ((c - p) div ucast vstride) = (unat c - unat p) div unat vstride"
    by (simp add: unat_div s d)
  have "(unat c - unat p) div unat vstride \<le> unat c" 
    by (meson diff_le_self div_le_dividend le_trans)
  then have "(unat c - unat p) div unat vstride < 2 ^ 32" using assms(2) by simp
  then show ?thesis using q by (simp add: unsigned_ucast_eq take_bit_nat_eq_self)
qed

text \<open>
  C3. For a draw with more than one instance and a stride that is not 0, the decoder
  returns one entry per instance: the vertex count of instance \<open>i\<close> is the difference of
  counter \<open>i\<close> and the counter before it (0 before the first) divided by the stride,
  stored in 32 bits, its buffer offset is the counter before it, and the total of bytes
  written is the last counter. Where the counters do not decrease and are below
  \<open>2 ^ 32\<close>, the stored count is that quotient as a number.
\<close>

theorem C3_decodeCounters:
  assumes "nInst > 1" "vstride \<noteq> 0"
  shows "\<exists>instData total.
     decodeCounters vstride nInst counters = Some (instData, total)
     \<and> length instData = unat nInst
     \<and> total = counters (unat nInst - 1)
     \<and> (\<forall>i < unat nInst.
          instData ! i =
            \<lparr>instNumVerts = ucast ((counters i - prevCounter counters i) div ucast vstride),
             instBufOffset = prevCounter counters i\<rparr>
          \<and> (prevCounter counters i \<le> counters i \<and> unat (counters i) < 2 ^ 32 \<longrightarrow>
               unat (instNumVerts (instData ! i)) =
                 (unat (counters i) - unat (prevCounter counters i)) div unat vstride))"
proof -
  let ?n = "unat nInst"
  let ?d = "\<lambda>i. \<lparr>instNumVerts = ucast ((counters i - prevCounter counters i) div ucast vstride),
                 instBufOffset = prevCounter counters i\<rparr>"
  have n: "?n \<noteq> 0" using assms(1)
    by (metis unsigned_1 word_less_iff_unsigned not_one_less_zero)
  have dec: "decodeCounters vstride nInst counters =
               Some (map ?d [0..<?n], prevCounter counters ?n)"
    using assms by (simp add: decodeCounters_def instLoop)
  have tot: "prevCounter counters ?n = counters (?n - 1)"
    using n by (simp add: prevCounter_def)
  have each: "map ?d [0..<?n] ! i = ?d i
      \<and> (prevCounter counters i \<le> counters i \<and> unat (counters i) < 2 ^ 32 \<longrightarrow>
            unat (instNumVerts (map ?d [0..<?n] ! i)) =
              (unat (counters i) - unat (prevCounter counters i)) div unat vstride)"
    if "i < ?n" for i
    using that numVerts_nat [of "prevCounter counters i" "counters i" vstride] assms(2)
    by simp
  show ?thesis using dec tot each by simp
qed


theorem C3_decodeCounters_witness:
  "(1 :: 32 word) < 5 \<and> (16 :: 32 word) \<noteq> 0 \<and>
   decodeCounters 16 5 witnessCounters =
     Some ([\<lparr>instNumVerts = 3, instBufOffset = 0\<rparr>, \<lparr>instNumVerts = 3, instBufOffset = 48\<rparr>,
            \<lparr>instNumVerts = 3, instBufOffset = 96\<rparr>, \<lparr>instNumVerts = 3, instBufOffset = 144\<rparr>,
            \<lparr>instNumVerts = 3, instBufOffset = 192\<rparr>], 240)"
proof -
  have h1: "(1 :: 32 word) < 5" by simp
  have h2: "(16 :: 32 word) \<noteq> 0" by simp
  have u: "[0..<5] = [0, 1, 2, 3, 4]" by (simp add: upt_rec)
  have "decodeCounters 16 5 witnessCounters =
     Some ([\<lparr>instNumVerts = 3, instBufOffset = 0\<rparr>, \<lparr>instNumVerts = 3, instBufOffset = 48\<rparr>,
            \<lparr>instNumVerts = 3, instBufOffset = 96\<rparr>, \<lparr>instNumVerts = 3, instBufOffset = 144\<rparr>,
            \<lparr>instNumVerts = 3, instBufOffset = 192\<rparr>], 240)"
    by (simp add: decodeCounters_def instStep_def witnessCounters_def u Let_def)
  then show ?thesis using C3_decodeCounters [OF h1 h2, of witnessCounters] by simp
qed

subsection \<open>The routine leaves the cache and the alias table alone\<close>

lemma tables_issue [simp]:
  "m_PostVSData (issue c s) = m_PostVSData s" "m_PostVSAlias (issue c s) = m_PostVSAlias s"
  by (simp_all add: issue_def)

lemma tables_CreateSOBuffers [simp]:
  "m_PostVSData (snd (CreateSOBuffers hrs s)) = m_PostVSData s"
  "m_PostVSAlias (snd (CreateSOBuffers hrs s)) = m_PostVSAlias s"
  by (simp_all add: CreateSOBuffers_def Let_def)

lemma tables_staging [simp]:
  "m_PostVSData (mapStaging s) = m_PostVSData s" "m_PostVSAlias (mapStaging s) = m_PostVSAlias s"
  "m_PostVSData (unmapStaging s) = m_PostVSData s"
  "m_PostVSAlias (unmapStaging s) = m_PostVSAlias s"
  by (simp_all add: mapStaging_def unmapStaging_def)

lemma tables_growFor [simp]:
  "m_PostVSData (fst (growFor e n s)) = m_PostVSData s"
  "m_PostVSAlias (fst (growFor e n s)) = m_PostVSAlias s"
  by (simp_all add: growFor_def)





lemma tables_gsFlush [simp]:
  "m_PostVSData (gsFlush n s) = m_PostVSData s" "m_PostVSAlias (gsFlush n s) = m_PostVSAlias s"
proof -
  have "m_PostVSData (foldl (\<lambda>s1 inst. if inst mod 1000 = 0
                       then issue GPUSync (issue ExecuteCommandLists s1) else s1) s xs) =
          m_PostVSData s \<and>
        m_PostVSAlias (foldl (\<lambda>s1 inst. if inst mod 1000 = 0
                       then issue GPUSync (issue ExecuteCommandLists s1) else s1) s xs) =
          m_PostVSAlias s" for xs :: "nat list"
    by (induction xs arbitrary: s) simp_all
  then show "m_PostVSData (gsFlush n s) = m_PostVSData s"
    "m_PostVSAlias (gsFlush n s) = m_PostVSAlias s"
    unfolding gsFlush_def by blast+
qed








subsection \<open>Aliases and the cache\<close>

lemma resolveAlias_alias:
  "m_PostVSAlias s B = Some A \<Longrightarrow> resolveAlias s B = A"
  "m_PostVSAlias s A = None \<Longrightarrow> resolveAlias s A = A"
  by (simp_all add: resolveAlias_def)







subsection \<open>Draws that cannot be captured\<close>

lemma status_setBoth:
  "status (vsout (setBothStatus msg ret)) = msg" "status (gsout (setBothStatus msg ret)) = msg"
  by (simp_all add: setBothStatus_def setVsStatus_def setGsStatus_def)

text \<open>
  C7. For an event that is not cached: when no pipeline is bound, the pipeline is not a
  graphics pipeline, it has no vertex shader, or the draw has no indices or no
  instances, the routine returns with the replay as it was but for the new cache entry
  (the call log, and so the work given to the device and the GPU, is unchanged), and
  both stage results of the entry carry the status string of the first of these tests
  that applies.
\<close>

theorem C7_uncapturable_draw:
  "m_PostVSData s (resolveAlias s ev) = None \<and>
   (rs_pipe e = None \<or> \<not> IsGraphics e \<or> VS_BytecodeLength e = 0 \<or>
    numIndices (action e) = 0 \<or> numInstances (action e) = 0) \<longrightarrow>
   (\<exists>ret. InitPostVSBuffers e s ev =
            Inr (s\<lparr>m_PostVSData := (m_PostVSData s)(resolveAlias s ev \<mapsto> ret)\<rparr>)
        \<and> status (vsout ret) = status (gsout ret)
        \<and> status (vsout ret) =
            (if rs_pipe e = None then ''No pipeline bound''
             else if \<not> IsGraphics e then ''No graphics pipeline bound''
             else if VS_BytecodeLength e = 0 then ''No vertex shader in pipeline''
             else if numIndices (action e) = 0 then ''Empty drawcall (0 indices/vertices)''
             else ''Empty drawcall (0 instances)''))"
  by (auto simp: InitPostVSBuffers_def capture_def Let_def status_setBoth)


lemma replay0_fresh:
  "m_PostVSData replay0 (resolveAlias replay0 7) = None" "resolveAlias replay0 7 = 7"
  "m_PostVSAlias replay0 9 = Some 7" "m_PostVSAlias replay0 7 = None"
  by (simp_all add: replay0_def resolveAlias_def)

theorem C7_uncapturable_draw_witness:
  "m_PostVSData replay0 (resolveAlias replay0 7) = None
   \<and> numInstances (action (envBase\<lparr>action := (action envBase)\<lparr>numInstances := 0\<rparr>\<rparr>)) = 0
   \<and> (\<exists>ret. InitPostVSBuffers (envBase\<lparr>action := (action envBase)\<lparr>numInstances := 0\<rparr>\<rparr>)
               replay0 7 = Inr (replay0\<lparr>m_PostVSData := [7 \<mapsto> ret]\<rparr>)
          \<and> status (vsout ret) = ''Empty drawcall (0 instances)''
          \<and> status (gsout ret) = ''Empty drawcall (0 instances)'')"
proof -
  let ?e = "envBase\<lparr>action := (action envBase)\<lparr>numInstances := 0\<rparr>\<rparr>"
  have h: "m_PostVSData replay0 (resolveAlias replay0 7) = None \<and>
     (rs_pipe ?e = None \<or> \<not> IsGraphics ?e \<or> VS_BytecodeLength ?e = 0 \<or>
      numIndices (action ?e) = 0 \<or> numInstances (action ?e) = 0)"
    using replay0_fresh(1) by simp
  have e: "rs_pipe ?e \<noteq> None" "IsGraphics ?e" "VS_BytecodeLength ?e \<noteq> 0"
    "numIndices (action ?e) \<noteq> 0" "numInstances (action ?e) = 0"
    by (simp_all add: envBase_def)
  have m: "m_PostVSData replay0 = Map.empty" by (simp add: replay0_def)
  show ?thesis
    using C7_uncapturable_draw [of replay0 7 ?e] h e replay0_fresh(2) m by auto
qed


subsection \<open>The routine on the concrete draws\<close>

lemma upt_1_3: "[Suc 0..<3] = [Suc 0, 2]"
  by (simp add: upt_rec)

lemma witnessSigFirst_build:
  "witnessSigFirst \<noteq> []"
  "buildVSDecls witnessSigFirst =
     \<lparr>sodecls = map declOf witnessSigFirst, stride = 24, posidx = 0, numPosComponents = 4\<rparr>"
  "buildGSDecls witnessSigFirst =
     \<lparr>sodecls = map declOf witnessSigFirst, stride = 24, posidx = 0, numPosComponents = 4\<rparr>"
  by (simp_all add: buildVSDecls_def buildGSDecls_def addDeclStream0_def witnessSigFirst_def
       sigPosition_def sigTexcoord_def addDecl_def sobuild0_def declOf_def shiftPosition_def
       Let_def)

lemma nf_base: "deriveNearFar witnessArith 4 3 witnessFloats 24 = (f_0_1, f_100)"
  by (simp add: deriveNearFar_def upt_1_3 pairDiffers_def vecW_def vecZ_def witnessFloats_def
        witnessArith_def fgt_def fabs_def isNaN_def fkey_def f_0_01_def f_0_def)

lemma envBase_fields:
  "rs_pipe envBase = Some 1" "IsGraphics envBase" "VS_BytecodeLength envBase = 1024"
  "rs_topo envBase = TOPOLOGY_TRIANGLELIST"
  "action envBase = \<lparr>numIndices = 3, numInstances = 1, Indexed = False, Instanced = False\<rparr>"
  "VS envBase = \<lparr>OutputSig = witnessSigFirst, OutputTopology = TOPOLOGY_UNDEFINED\<rparr>"
  "GS envBase = None" "DS envBase = None" "rootsigAllowsStreamOutput envBase"
  "hrCreateRootSignature envBase = S_OK" "hrCreatePipeStateVS envBase = S_OK"
  "hrCreatePipeStateGS envBase = S_OK" "hrsCreateSOBuffersVS envBase = hrsAllOk"
  "hrsCreateSOBuffersGS envBase = hrsAllOk" "hrMapVS envBase = S_OK"
  "hrMapStatistics envBase = S_OK" "hrMapGS envBase = S_OK"
  "vsoutBufferResource envBase = Some 100" "gsoutBufferResource envBase = Some 101"
  "vsBytesWritten envBase = 72" "vsFloats envBase = witnessFloats"
  "probes envBase = []" "gsCounters envBase = (\<lambda>i. 0)" "gsFloats envBase = (\<lambda>i. 0)"
  "CalcMeshOutputSize envBase = (\<lambda>cur req. max (2 * cur) req)"
  "ToStr envBase E_FAIL = ''E_FAIL''" "arith envBase = witnessArith"
  "newPostVSData envBase = emptyPostVS"
  by (simp_all add: envBase_def)

lemma hresults: "\<not> FAILED S_OK" "FAILED E_FAIL" "FAILED E_OUTOFMEMORY"
  by (simp_all add: FAILED_def S_OK_def E_FAIL_def E_OUTOFMEMORY_def)

lemma replay0_fields:
  "m_SOBufferSize replay0 = 0x100000" "stagingMapped replay0 = 0" "calls replay0 = []"
  "m_PostVSData replay0 = Map.empty" "resolveAlias replay0 7 = 7"
  by (simp_all add: replay0_def resolveAlias_def)

lemmas run_defs = InitPostVSBuffers_def capture_def captureStages_def afterRootSig_def
  vsStage_def vsRecreate_def vsReadback_def growFor_def Let_def lastShader_def

lemma ev_zero:
  "InitPostVSBuffers (envBase\<lparr>vsBytesWritten := 0\<rparr>) replay0 7 =
     Inr (replay0\<lparr>stagingMapped := 1,
                   calls := [CreatePipeState, ExecuteCommandLists, GPUSync, Map],
                   m_PostVSData := [7 \<mapsto> setVsStatus vsStatusNoData emptyPostVS]\<rparr>)"
  by (simp add: run_defs envBase_fields replay0_fields witnessSigFirst_build hresults
        issue_def mapStaging_def replay0_def resolveAlias_def)



lemma ev_gs_no_data:
  "InitPostVSBuffers
     (envBase\<lparr>GS := Some triangleStripShader,
              probes := [\<lparr>probeMapHr = S_OK, probePrimitivesStorageNeeded = 0,
                          probeCreateHrs = hrsAllOk\<rparr>]\<rparr>) replay0 7 =
   Inr (replay0\<lparr>stagingMapped := 0,
                 calls := [CreatePipeState, ExecuteCommandLists, GPUSync, Map,
                           CreateCommittedResource 72, FillBuffer, Unmap,
                           CreatePipeState, ExecuteCommandLists, GPUSync, Map, Unmap,
                           ExecuteCommandLists, GPUSync, Map, Unmap],
                 m_PostVSData :=
                   [7 \<mapsto> the (m_PostVSData
                     (projr (InitPostVSBuffers
                       (envBase\<lparr>GS := Some triangleStripShader,
                                probes := [\<lparr>probeMapHr = S_OK, probePrimitivesStorageNeeded = 0,
                                            probeCreateHrs = hrsAllOk\<rparr>]\<rparr>) replay0 7)) 7)]\<rparr>)"
  by (simp add: run_defs envBase_fields replay0_fields witnessSigFirst_build hresults
        issue_def replay0_def resolveAlias_def mapStaging_def unmapStaging_def nf_base
        gsStage_def gsReadback_def decodeCounters_def triangleStripShader_def)

subsection \<open>Failures of one stage and the other stage\<close>

lemma status_set:
  "status (vsout (setVsStatus msg ret)) = msg" "gsout (setVsStatus msg ret) = gsout ret"
  "vsin (setVsStatus msg ret) = vsin ret"
  "status (gsout (setGsStatus msg ret)) = msg" "vsout (setGsStatus msg ret) = vsout ret"
  "vsin (setGsStatus msg ret) = vsin ret"
  by (simp_all add: setVsStatus_def setGsStatus_def)

lemma vs_messages:
  "vsStatusRootSig e \<noteq> []" "vsStatusPipeline e \<noteq> []" "vsStatusOutOfMemory e n \<noteq> []"
  "vsStatusMapFailed \<noteq> []" "vsStatusNoData \<noteq> []"
  by (simp_all add: vsStatusRootSig_def vsStatusPipeline_def vsStatusOutOfMemory_def
        vsStatusMapFailed_def vsStatusNoData_def)

text \<open>
  Where the vertex stage returns from the routine, it has written a status that is not
  empty to the vertex result and has left the geometry/tessellation result as it was,
  or it has found no data and has reset the entry.
\<close>

lemma vsRecreate_Inl:
  "vsRecreate e r ret s = Inl (ret1, s1) \<Longrightarrow>
     (status (vsout ret1) \<noteq> [] \<and> gsout ret1 = gsout ret) \<or>
     ret1 = setVsStatus vsStatusNoData (newPostVSData e)"
  using vs_messages(3) by (auto simp: vsRecreate_def Let_def status_set split: if_splits)

lemma vsReadback_Return:
  "vsReadback e b i ret s = Return (ret1, s1) \<Longrightarrow>
     (status (vsout ret1) \<noteq> [] \<and> gsout ret1 = gsout ret) \<or>
     ret1 = setVsStatus vsStatusNoData (newPostVSData e)"
  using vs_messages(4) by (auto simp: vsReadback_def Let_def status_set split: if_splits)

lemma vsReadback_Next:
  "vsReadback e b i ret s = Next (ret1, s1) \<Longrightarrow>
     status (vsout ret1) = status (vsout ret) \<and> gsout ret1 = gsout ret"
  by (auto simp: vsReadback_def Let_def split: if_splits)

lemma vsIndexed_Return:
  "vsIndexed e b r ret s = Return (ret1, s1) \<Longrightarrow>
     (status (vsout ret1) \<noteq> [] \<and> gsout ret1 = gsout ret) \<or>
     ret1 = setVsStatus vsStatusNoData (newPostVSData e)"
  by (auto simp: vsIndexed_def Let_def split: sum.splits
      dest: vsRecreate_Inl vsReadback_Return)

lemma vsIndexed_Next:
  "vsIndexed e b r ret s = Next (ret1, s1) \<Longrightarrow>
     status (vsout ret1) = status (vsout ret) \<and> gsout ret1 = gsout ret"
  by (auto simp: vsIndexed_def Let_def split: sum.splits dest: vsReadback_Next)

lemma vsStage_Return:
  "vsStage e ret s = Return (ret1, s1) \<Longrightarrow>
     (status (vsout ret1) \<noteq> [] \<and> gsout ret1 = gsout ret) \<or>
     ret1 = setVsStatus vsStatusNoData (newPostVSData e)"
  using vs_messages(2)
  by (auto simp: vsStage_def Let_def status_set split: if_splits sum.splits
      dest: vsRecreate_Inl vsReadback_Return vsIndexed_Return)

lemma vsStage_Next:
  "vsStage e ret s = Next (ret1, s1) \<Longrightarrow>
     status (vsout ret1) = status (vsout ret) \<and> gsout ret1 = gsout ret"
  by (auto simp: vsStage_def Let_def split: if_splits sum.splits
      dest: vsReadback_Next vsIndexed_Next)











subsection \<open>Map and Unmap of the staging buffer\<close>

text \<open>
  C6: the vertex stage does not keep to it. A draw whose vertex stage wrote no bytes
  returns at line 686 after a successful Map and without an Unmap: the staging buffer is
  left mapped, and Map is the last call of the log. The geometry/tessellation stage has
  the Unmap on the same exit (line 1269), and on it the buffer is left unmapped.
\<close>

theorem C6_vertex_no_data_leaves_mapped:
  "(\<exists>s1. InitPostVSBuffers (envBase\<lparr>vsBytesWritten := 0\<rparr>) replay0 7 = Inr s1
         \<and> stagingMapped s1 = 1
         \<and> calls s1 = [CreatePipeState, ExecuteCommandLists, GPUSync, Map])
   \<and> (\<exists>s1. InitPostVSBuffers
               (envBase\<lparr>GS := Some triangleStripShader,
                        probes := [\<lparr>probeMapHr = S_OK, probePrimitivesStorageNeeded = 0,
                                    probeCreateHrs = hrsAllOk\<rparr>]\<rparr>) replay0 7 = Inr s1
         \<and> stagingMapped s1 = 0
         \<and> calls s1 = [CreatePipeState, ExecuteCommandLists, GPUSync, Map,
                        CreateCommittedResource 72, FillBuffer, Unmap,
                        CreatePipeState, ExecuteCommandLists, GPUSync, Map, Unmap,
                        ExecuteCommandLists, GPUSync, Map, Unmap])"
proof
  show "\<exists>s1. InitPostVSBuffers (envBase\<lparr>vsBytesWritten := 0\<rparr>) replay0 7 = Inr s1
         \<and> stagingMapped s1 = 1
         \<and> calls s1 = [CreatePipeState, ExecuteCommandLists, GPUSync, Map]"
    apply (intro exI conjI)
      apply (rule ev_zero)
     apply simp_all
    done
  show "\<exists>s1. InitPostVSBuffers
               (envBase\<lparr>GS := Some triangleStripShader,
                        probes := [\<lparr>probeMapHr = S_OK, probePrimitivesStorageNeeded = 0,
                                    probeCreateHrs = hrsAllOk\<rparr>]\<rparr>) replay0 7 = Inr s1
         \<and> stagingMapped s1 = 0
         \<and> calls s1 = [CreatePipeState, ExecuteCommandLists, GPUSync, Map,
                        CreateCommittedResource 72, FillBuffer, Unmap,
                        CreatePipeState, ExecuteCommandLists, GPUSync, Map, Unmap,
                        ExecuteCommandLists, GPUSync, Map, Unmap]"
    apply (intro exI conjI)
      apply (rule ev_gs_no_data)
     apply simp_all
    done
qed

subsection \<open>Near and far plane\<close>





lemma upt_1_2: "[Suc 0..<2] = [Suc 0]"
  by (simp add: upt_rec)




subsection \<open>Topology of the geometry/tessellation result\<close>

lemma gs_set_topo:
  "topo (gsout (setGsStatus msg ret)) = topo (gsout ret)"
  "topo (gsout (setVsStatus msg ret)) = topo (gsout ret)"
  by (simp_all add: setGsStatus_def setVsStatus_def)

lemma gsMulti_topo:
  "gsMulti e b ret s = Inr (Return (ret1, s1)) \<Longrightarrow> topo (gsout ret1) = topo (gsout ret)"
  by (auto simp: gsMulti_def Let_def gs_set_topo split: if_splits sum.splits)

lemma probeLoop_topo:
  "probeLoop e b ret s ps = Inr (Return (ret1, s1)) \<Longrightarrow> topo (gsout ret1) = topo (gsout ret)"
proof (induction ps arbitrary: s)
  case Nil
  then show ?case by simp
next
  case (Cons p ps)
  then show ?case by (auto simp: Let_def gs_set_topo split: if_splits)
qed

lemma gsReadback_topo:
  "gsReadback e b l ret s = Inr (ret1, s1) \<Longrightarrow>
     topo (gsout ret1) = topo (gsout ret) \<or> topo (gsout ret1) = gsoutTopo (OutputTopology l)"
  by (auto simp: gsReadback_def Let_def gs_set_topo split: if_splits option.splits)

lemma gsStage_topo:
  "gsStage e l ret s = Inr (ret1, s1) \<Longrightarrow>
     topo (gsout ret1) = topo (gsout ret) \<or> topo (gsout ret1) = gsoutTopo (OutputTopology l)"
  by (auto simp: gsStage_def Let_def gs_set_topo split: if_splits sum.splits flow.splits
      dest!: gsMulti_topo probeLoop_topo gsReadback_topo)

lemma not_strip: "\<not> isStrip TOPOLOGY_UNDEFINED" "\<not> isStrip (gsoutTopo t)"
  by (auto simp: isStrip_def gsoutTopo_def)

lemma afterRootSig_topo:
  assumes "afterRootSig e ret s = Inr (ret1, s1)" "\<not> isStrip (topo (gsout ret))"
    "\<not> isStrip (topo (gsout (newPostVSData e)))"
  shows "\<not> isStrip (topo (gsout ret1))"
proof -
  have fin: "\<not> isStrip (topo (gsout ret1))"
    if h: "\<not> isStrip (topo (gsout ret2))"
      "(case lastShader e of Some lastSh \<Rightarrow> gsStage e lastSh ret2 s2 | None \<Rightarrow> Inr (ret2, s2)) =
         Inr (ret1, s1)" for ret2 s2
  proof (cases "lastShader e")
    case None
    then show ?thesis using h by simp
  next
    case (Some l)
    then have "gsStage e l ret2 s2 = Inr (ret1, s1)" using h(2) by simp
    from gsStage_topo [OF this] show ?thesis using h(1) not_strip(2) by auto
  qed
  show ?thesis
  proof (cases "OutputSig (VS e) \<noteq> []")
    case True
    show ?thesis
    proof (cases "vsStage e ret s")
      case (Return r)
      then have "vsStage e ret s = Return (ret1, s1)"
        using assms(1) True by (simp add: afterRootSig_def)
      from vsStage_Return [OF this] show ?thesis
        using assms(2,3) by (auto simp: gs_set_topo)
    next
      case (Next n)
      obtain ret2 s2 where n: "n = (ret2, s2)" by (cases n)
      have "\<not> isStrip (topo (gsout ret2))"
        using vsStage_Next [of e ret s ret2 s2] Next n assms(2) by simp
      then show ?thesis using fin [of ret2 s2] assms(1) True Next n
        by (simp add: afterRootSig_def)
    qed
  next
    case False
    have "\<not> isStrip (topo (gsout (vsEmptySig e ret)))"
      using assms(2) by (simp add: vsEmptySig_def)
    then show ?thesis using fin [of "vsEmptySig e ret" s] assms(1) False
      by (simp add: afterRootSig_def)
  qed
qed

lemma capture_topo:
  assumes "capture e (newPostVSData e) s = Inr (ret1, s1)"
    "\<not> isStrip (topo (gsout (newPostVSData e)))"
  shows "\<not> isStrip (topo (gsout ret1))"
proof -
  let ?n = "newPostVSData e"
  let ?r = "?n\<lparr>vsin := (vsin ?n)\<lparr>topo := rs_topo e\<rparr>,
                 vsout := (vsout ?n)\<lparr>topo := rs_topo e\<rparr>\<rparr>"
  have early: "\<not> isStrip (topo (gsout (setBothStatus msg ?n)))"
    "\<not> isStrip (topo (gsout (setBothStatus msg ?r)))" for msg
    using assms(2) by (simp_all add: setBothStatus_def gs_set_topo)
  show ?thesis
  proof (cases "rs_pipe e = None \<or> \<not> IsGraphics e \<or> VS_BytecodeLength e = 0 \<or>
                numIndices (action e) = 0 \<or> numInstances (action e) = 0")
    case True
    then show ?thesis using assms(1) early by (auto simp: capture_def Let_def split: if_splits)
  next
    case False
    then have c: "captureStages e ?r s = Inr (ret1, s1)"
      using assms(1) by (auto simp: capture_def Let_def)
    let ?p = "setGsStatus (presetGsStatus e) ?r"
    have up: "\<not> isStrip (topo (gsout ?p))" using assms(2) by (simp add: gs_set_topo)
    show ?thesis
    proof (cases "\<not> rootsigAllowsStreamOutput e \<and> FAILED (hrCreateRootSignature e)")
      case True
      then have "ret1 = setVsStatus (vsStatusRootSig e) ?p"
        using c by (simp add: captureStages_def Let_def)
      then show ?thesis using up by (simp add: gs_set_topo)
    next
      case False
      then have "afterRootSig e ?p s = Inr (ret1, s1) \<or>
                 afterRootSig e ?p (issue CreateRootSignature s) = Inr (ret1, s1)"
        using c by (auto simp: captureStages_def Let_def split: if_splits)
      then show ?thesis using afterRootSig_topo up assms(2) by blast
    qed
  qed
qed

text \<open>
  C10. The topology stored for the geometry/tessellation result is never a strip: a
  triangle strip, a line strip and their adjacency variants are stored as the
  corresponding lists, and every other topology is stored as it is. The stage leaves
  the topology of its result as it was or stores this translation of the output topology
  of the last shader. Where a new entry does not hold a strip, the entry the routine makes
  for an event never has a strip as the topology of its geometry/tessellation result.
\<close>

theorem C10_gsoutTopo_never_strip:
  "\<not> isStrip (gsoutTopo t)
   \<and> gsoutTopo TOPOLOGY_TRIANGLESTRIP = TOPOLOGY_TRIANGLELIST
   \<and> gsoutTopo TOPOLOGY_LINESTRIP = TOPOLOGY_LINELIST
   \<and> gsoutTopo TOPOLOGY_TRIANGLESTRIP_ADJ = TOPOLOGY_TRIANGLELIST_ADJ
   \<and> gsoutTopo TOPOLOGY_LINESTRIP_ADJ = TOPOLOGY_LINELIST_ADJ
   \<and> (isStrip t \<or> gsoutTopo t = t)
   \<and> (\<not> isStrip (topo (gsout (newPostVSData e))) \<and>
       m_PostVSData s (resolveAlias s ev) = None \<and> InitPostVSBuffers e s ev = Inr s1 \<and>
       m_PostVSData s1 (resolveAlias s ev) = Some ret \<longrightarrow> \<not> isStrip (topo (gsout ret)))
   \<and> (gsStage e lastSh ret0 s = Inr (ret2, s2) \<longrightarrow>
        topo (gsout ret2) = topo (gsout ret0) \<or>
        topo (gsout ret2) = gsoutTopo (OutputTopology lastSh))"
proof -
  have i: "\<not> isStrip (topo (gsout ret))"
    if h: "m_PostVSData s (resolveAlias s ev) = None" "InitPostVSBuffers e s ev = Inr s1"
      "m_PostVSData s1 (resolveAlias s ev) = Some ret"
      "\<not> isStrip (topo (gsout (newPostVSData e)))"
  proof -
    obtain ret1 s0 where c: "capture e (newPostVSData e) s = Inr (ret1, s0)"
      and s1: "s1 = s0\<lparr>m_PostVSData := (m_PostVSData s0)(resolveAlias s ev \<mapsto> ret1)\<rparr>"
      using h(1,2) by (auto simp: InitPostVSBuffers_def Let_def split: sum.splits)
    have "ret1 = ret" using h(3) s1 by simp
    then show ?thesis using capture_topo [OF c h(4)] by simp
  qed
  show ?thesis using i gsStage_topo [of e lastSh ret0 s ret2 s2]
    by (auto simp: gsoutTopo_def isStrip_def)
qed

lemma ev_gs_strip:
  "case InitPostVSBuffers
          (envBase\<lparr>GS := Some triangleStripShader,
                   probes := [\<lparr>probeMapHr = S_OK, probePrimitivesStorageNeeded = 1,
                               probeCreateHrs = hrsAllOk\<rparr>],
                   gsCounters := (\<lambda>i. 72), gsFloats := witnessFloats\<rparr>) replay0 7 of
     Inl f \<Rightarrow> False
   | Inr s1 \<Rightarrow>
       (case m_PostVSData s1 7 of
          None \<Rightarrow> False
        | Some ret \<Rightarrow> topo (gsout ret) = TOPOLOGY_TRIANGLELIST \<and> status (gsout ret) = [] \<and>
                      numVerts (gsout ret) = 3)"
  by (simp add: run_defs envBase_fields replay0_fields witnessSigFirst_build hresults
        issue_def replay0_def resolveAlias_def mapStaging_def unmapStaging_def nf_base
        gsStage_def gsReadback_def decodeCounters_def triangleStripShader_def
        setGsStatus_def gsoutTopo_def)

theorem C10_gsoutTopo_never_strip_witness:
  "\<exists>s1 ret.
     InitPostVSBuffers
       (envBase\<lparr>GS := Some triangleStripShader,
                probes := [\<lparr>probeMapHr = S_OK, probePrimitivesStorageNeeded = 1,
                            probeCreateHrs = hrsAllOk\<rparr>],
                gsCounters := (\<lambda>i. 72), gsFloats := witnessFloats\<rparr>) replay0 7 = Inr s1
     \<and> m_PostVSData s1 7 = Some ret
     \<and> OutputTopology triangleStripShader = TOPOLOGY_TRIANGLESTRIP
     \<and> topo (gsout ret) = TOPOLOGY_TRIANGLELIST
     \<and> \<not> isStrip (topo (gsout ret))"
proof -
  let ?e = "envBase\<lparr>GS := Some triangleStripShader,
                probes := [\<lparr>probeMapHr = S_OK, probePrimitivesStorageNeeded = 1,
                            probeCreateHrs = hrsAllOk\<rparr>],
                gsCounters := (\<lambda>i. 72), gsFloats := witnessFloats\<rparr>"
  obtain s1 ret where i: "InitPostVSBuffers ?e replay0 7 = Inr s1"
    and m: "m_PostVSData s1 7 = Some ret" and t: "topo (gsout ret) = TOPOLOGY_TRIANGLELIST"
    using ev_gs_strip by (auto split: sum.splits option.splits)
  have h: "\<not> isStrip (topo (gsout (newPostVSData ?e))) \<and>
      m_PostVSData replay0 (resolveAlias replay0 7) = None \<and>
      InitPostVSBuffers ?e replay0 7 = Inr s1 \<and>
      m_PostVSData s1 (resolveAlias replay0 7) = Some ret"
    using i m
    by (simp add: replay0_fields envBase_fields emptyPostVS_def emptyStage_def isStrip_def)
  have n: "\<not> isStrip (topo (gsout ret))"
    using C10_gsoutTopo_never_strip [where s = replay0 and ev = 7 and e = ?e and ?s1.0 = s1
        and ret = ret] h by blast
  have o: "OutputTopology triangleStripShader = TOPOLOGY_TRIANGLESTRIP"
    by (simp add: triangleStripShader_def)
  show ?thesis using i m t n o by blast
qed

end
